theory Spec2Isabelle
  imports Main "HOL-Library.AList"
begin

section \<open>Security gate (src/shared/security.ts)\<close>

text \<open>\<^verbatim>\<open>SecurityLevel = 'only-trusted' | 'non-malicious' | 'all'\<close>\<close>

datatype SecurityLevel = OnlyTrusted | NonMalicious | All

text \<open>
  Modelled from the spec: the type \<^verbatim>\<open>ExtendedActionState\<close> is declared in
  \<^verbatim>\<open>../api\<close>, which is not among the sources. Its values are trusted, unknown and
  malicious (section 4.4 of the spec); checkSecurity compares with the first and the last.
\<close>

datatype ExtendedActionState = Trusted | Unknown | Malicious

text \<open>
  The body of \<^verbatim>\<open>checkSecurity\<close> opens with \<^verbatim>\<open>return true;\<close> under the comment
  "testing only - should be removed for production"; the \<^verbatim>\<open>switch\<close> after it is
  never reached. The function as it runs:
\<close>

definition checkSecurity :: "ExtendedActionState \<Rightarrow> SecurityLevel \<Rightarrow> bool" where
  "checkSecurity state securityLevel = True"

text \<open>The unreachable \<^verbatim>\<open>switch\<close>, kept for comparison with what the code runs.\<close>

fun checkSecurity_switch :: "ExtendedActionState \<Rightarrow> SecurityLevel \<Rightarrow> bool" where
  "checkSecurity_switch state OnlyTrusted = (state = Trusted)"
| "checkSecurity_switch state NonMalicious = (state \<noteq> Malicious)"
| "checkSecurity_switch state All = True"

section \<open>Observer options (normalizeOptions)\<close>

text \<open>
  \<^verbatim>\<open>NormalizedObserverOptions.securityLevel\<close>: one level per checkpoint category.
\<close>

record security_levels =
  websites :: SecurityLevel
  interstitials :: SecurityLevel
  actions :: SecurityLevel

text \<open>
  \<^verbatim>\<open>ObserverOptions.securityLevel\<close> is either one level (a string) or a record with
  a level per category; in \<^verbatim>\<open>Partial<ObserverOptions>\<close> it may be absent.
\<close>

datatype securityLevel_option = Scalar SecurityLevel | PerCategory security_levels

record ObserverOptions =
  securityLevel :: "securityLevel_option option"

definition DEFAULT_OPTIONS_securityLevel :: SecurityLevel where
  "DEFAULT_OPTIONS_securityLevel = OnlyTrusted"

text \<open>
  Every level is a non-empty string and a record is an object, so
  \<^verbatim>\<open>!options.securityLevel\<close> holds exactly when the field is absent.
\<close>

definition normalizeOptions :: "ObserverOptions \<Rightarrow> security_levels" where
  "normalizeOptions options =
     (case securityLevel options of
        None \<Rightarrow>
          \<lparr> websites = DEFAULT_OPTIONS_securityLevel,
            interstitials = DEFAULT_OPTIONS_securityLevel,
            actions = DEFAULT_OPTIONS_securityLevel \<rparr>
      | Some (Scalar l) \<Rightarrow> \<lparr> websites = l, interstitials = l, actions = l \<rparr>
      | Some (PerCategory r) \<Rightarrow> r)"

section \<open>The content tree\<close>

text \<open>
  The page's DOM as a store: every node has an identity (a number), the store is the list
  of the nodes' data with the node \<open>n\<close> at position \<open>n\<close>, and \<open>next_id\<close>, the length
  of the list, is the first identity not yet used, so that \<^verbatim>\<open>document.createElement\<close>
  allocates it. A node keeps both its parent and the list of its children, as the DOM
  does. Attributes and inline style properties (under their script names) are association
  lists; \<open>innerHTML\<close> holds markup assigned through \<^verbatim>\<open>innerHTML\<close>, unparsed;
  \<open>roots\<close> holds the React roots that \<^verbatim>\<open>createRoot(container).render(...)\<close> made.
  Event listeners are not part of the model.
\<close>

type_synonym node_id = nat

datatype node_type = ELEMENT_NODE | TEXT_NODE

record node =
  nodeType :: node_type
  localName :: string
  attrs :: "(string \<times> string) list"
  style :: "(string \<times> string) list"
  innerHTML :: string
  parentNode :: "node_id option"
  childNodes :: "node_id list"

datatype Action = ActionDescriptor string

record render =
  r_action :: Action
  websiteUrl :: string
  websiteText :: string
  r_securityLevel :: security_levels

record dom =
  nodes :: "node list"
  roots :: "(node_id \<times> render) list"

definition next_id :: "dom \<Rightarrow> node_id" where
  "next_id d = length (nodes d)"

definition blank :: "string \<Rightarrow> node" where
  "blank tag = \<lparr> nodeType = ELEMENT_NODE, localName = tag, attrs = [],
     style = [], innerHTML = [], parentNode = None, childNodes = [] \<rparr>"

text \<open>
  A script only holds references to nodes that exist; outside the store \<open>node_at\<close> reads
  an empty element and \<open>upd\<close> writes nothing.
\<close>

definition node_at :: "dom \<Rightarrow> node_id \<Rightarrow> node" where
  "node_at d n = (if n < length (nodes d) then nodes d ! n else blank [])"

definition upd :: "dom \<Rightarrow> node_id \<Rightarrow> (node \<Rightarrow> node) \<Rightarrow> dom" where
  "upd d n f = d\<lparr>nodes := (nodes d)[n := f (node_at d n)]\<rparr>"

definition createElement :: "dom \<Rightarrow> string \<Rightarrow> dom \<times> node_id" where
  "createElement d tag = (d\<lparr>nodes := nodes d @ [blank tag]\<rparr>, next_id d)"

definition getAttribute :: "dom \<Rightarrow> node_id \<Rightarrow> string \<Rightarrow> string option" where
  "getAttribute d n k = map_of (attrs (node_at d n)) k"

definition hasAttribute :: "dom \<Rightarrow> node_id \<Rightarrow> string \<Rightarrow> bool" where
  "hasAttribute d n k = (getAttribute d n k \<noteq> None)"

definition setAttribute :: "dom \<Rightarrow> node_id \<Rightarrow> string \<Rightarrow> string \<Rightarrow> dom" where
  "setAttribute d n k v = upd d n (\<lambda>x. x\<lparr>attrs := AList.update k v (attrs x)\<rparr>)"

definition getStyle :: "dom \<Rightarrow> node_id \<Rightarrow> string \<Rightarrow> string option" where
  "getStyle d n k = map_of (style (node_at d n)) k"

definition setStyle :: "dom \<Rightarrow> node_id \<Rightarrow> string \<Rightarrow> string \<Rightarrow> dom" where
  "setStyle d n k v = upd d n (\<lambda>x. x\<lparr>style := AList.update k v (style x)\<rparr>)"

fun setStyles :: "dom \<Rightarrow> node_id \<Rightarrow> (string \<times> string) list \<Rightarrow> dom" where
  "setStyles d n [] = d"
| "setStyles d n ((k, v) # kvs) = setStyles (setStyle d n k v) n kvs"

definition setInnerHTML :: "dom \<Rightarrow> node_id \<Rightarrow> string \<Rightarrow> dom" where
  "setInnerHTML d n h = upd d n (\<lambda>x. x\<lparr>innerHTML := h\<rparr>)"

subsection \<open>Class names\<close>

text \<open>\<^verbatim>\<open>className\<close> reflects the \<^verbatim>\<open>class\<close> attribute; it is empty when there is none.\<close>

definition className :: "dom \<Rightarrow> node_id \<Rightarrow> string" where
  "className d n = (case getAttribute d n ''class'' of None \<Rightarrow> [] | Some c \<Rightarrow> c)"

definition setClassName :: "dom \<Rightarrow> node_id \<Rightarrow> string \<Rightarrow> dom" where
  "setClassName d n c = setAttribute d n ''class'' c"

text \<open>\<^verbatim>\<open>String.prototype.includes\<close>: the argument occurs as a contiguous substring.\<close>

fun str_includes :: "string \<Rightarrow> string \<Rightarrow> bool" where
  "str_includes [] sub = (sub = [])"
| "str_includes (c # s) sub = (take (length sub) (c # s) = sub \<or> str_includes s sub)"

text \<open>
  \<^verbatim>\<open>classList\<close> is the ordered set of the tokens of the class attribute, split at
  ASCII whitespace (space, tab, line feed, form feed, carriage return).
\<close>

definition is_ws :: "char \<Rightarrow> bool" where
  "is_ws c = (c \<in> set [CHR '' '', CHR 0x09, CHR 0x0A, CHR 0x0C, CHR 0x0D])"

fun tokens_acc :: "string \<Rightarrow> string \<Rightarrow> string list" where
  "tokens_acc cur [] = (if cur = [] then [] else [cur])"
| "tokens_acc cur (c # cs) =
     (if is_ws c then (if cur = [] then tokens_acc [] cs else cur # tokens_acc [] cs)
      else tokens_acc (cur @ [c]) cs)"

definition classList :: "dom \<Rightarrow> node_id \<Rightarrow> string list" where
  "classList d n = rev (remdups (rev (tokens_acc [] (className d n))))"

definition classList_contains :: "dom \<Rightarrow> node_id \<Rightarrow> string \<Rightarrow> bool" where
  "classList_contains d n tok = (tok \<in> set (classList d n))"

fun join_space :: "string list \<Rightarrow> string" where
  "join_space [] = []"
| "join_space [t] = t"
| "join_space (t # ts) = t @ '' '' @ join_space ts"

text \<open>\<^verbatim>\<open>classList.add(tok)\<close> adds the token if absent and writes the set back.\<close>

definition classList_add :: "dom \<Rightarrow> node_id \<Rightarrow> string \<Rightarrow> dom" where
  "classList_add d n tok =
     (let ts = classList d n
      in setClassName d n (join_space (if tok \<in> set ts then ts else ts @ [tok])))"

subsection \<open>Reading the tree\<close>

text \<open>
  The selectors the source uses: \<^verbatim>\<open>[attr="value"]\<close>, \<^verbatim>\<open>.class\<close> and a tag name.
\<close>

datatype selector = AttrEq string string | ClassSel string | TagSel string

definition matches :: "dom \<Rightarrow> node_id \<Rightarrow> selector \<Rightarrow> bool" where
  "matches d n sel =
     (nodeType (node_at d n) = ELEMENT_NODE \<and>
      (case sel of
         AttrEq k v \<Rightarrow> getAttribute d n k = Some v
       | ClassSel c \<Rightarrow> classList_contains d n c
       | TagSel t \<Rightarrow> localName (node_at d n) = t))"

definition parentElement :: "dom \<Rightarrow> node_id \<Rightarrow> node_id option" where
  "parentElement d n =
     (case parentNode (node_at d n) of
        None \<Rightarrow> None
      | Some p \<Rightarrow> if nodeType (node_at d p) = ELEMENT_NODE then Some p else None)"

text \<open>\<^verbatim>\<open>children\<close>: the child nodes that are elements.\<close>

definition children :: "dom \<Rightarrow> node_id \<Rightarrow> node_id list" where
  "children d n = filter (\<lambda>c. nodeType (node_at d c) = ELEMENT_NODE) (childNodes (node_at d n))"

text \<open>
  The walks over the tree take fuel. A tree of the store has at most \<open>next_id\<close> nodes,
  so no branch and no chain of parents is longer than that, and \<open>next_id\<close> is the fuel.
  \<open>descendants\<close> lists the nodes below a node in document order, the node itself left out.
\<close>

fun descendants_fuel :: "nat \<Rightarrow> dom \<Rightarrow> node_id \<Rightarrow> node_id list" where
  "descendants_fuel 0 d n = []"
| "descendants_fuel (Suc k) d n =
     concat (map (\<lambda>c. c # descendants_fuel k d c) (childNodes (node_at d n)))"

definition descendants :: "dom \<Rightarrow> node_id \<Rightarrow> node_id list" where
  "descendants d n = descendants_fuel (next_id d) d n"

definition querySelector :: "dom \<Rightarrow> node_id \<Rightarrow> selector \<Rightarrow> node_id option" where
  "querySelector d n sel = find (\<lambda>m. matches d m sel) (descendants d n)"

definition getElementsByTagName :: "dom \<Rightarrow> node_id \<Rightarrow> string \<Rightarrow> node_id list" where
  "getElementsByTagName d n t = filter (\<lambda>m. matches d m (TagSel t)) (descendants d n)"

fun closest_fuel :: "nat \<Rightarrow> dom \<Rightarrow> node_id \<Rightarrow> selector \<Rightarrow> node_id option" where
  "closest_fuel 0 d n sel = None"
| "closest_fuel (Suc k) d n sel =
     (if matches d n sel then Some n
      else case parentNode (node_at d n) of
             None \<Rightarrow> None
           | Some p \<Rightarrow> closest_fuel k d p sel)"

definition closest :: "dom \<Rightarrow> node_id \<Rightarrow> selector \<Rightarrow> node_id option" where
  "closest d n sel = closest_fuel (next_id d) d n sel"

fun after_in :: "node_id \<Rightarrow> node_id list \<Rightarrow> node_id option" where
  "after_in n [] = None"
| "after_in n [x] = None"
| "after_in n (x # y # xs) = (if x = n then Some y else after_in n (y # xs))"

definition nextSibling :: "dom \<Rightarrow> node_id \<Rightarrow> node_id option" where
  "nextSibling d n =
     (case parentNode (node_at d n) of
        None \<Rightarrow> None
      | Some p \<Rightarrow> after_in n (childNodes (node_at d p)))"

subsection \<open>Changing the tree\<close>

text \<open>\<^verbatim>\<open>node.remove()\<close>: takes the node out of its parent; nothing when it has none.\<close>

definition remove_node :: "dom \<Rightarrow> node_id \<Rightarrow> dom" where
  "remove_node d n =
     (case parentNode (node_at d n) of
        None \<Rightarrow> d
      | Some p \<Rightarrow>
          upd (upd d p (\<lambda>x. x\<lparr>childNodes := removeAll n (childNodes x)\<rparr>))
            n (\<lambda>x. x\<lparr>parentNode := None\<rparr>))"

text \<open>
  \<^verbatim>\<open>parent.append(c)\<close>, \<^verbatim>\<open>parent.prepend(c)\<close> and
  \<^verbatim>\<open>parent.insertBefore(c, ref)\<close> first take \<open>c\<close> out of where it is. The source gives
  them a node it has just created, never an ancestor of the parent.
\<close>

definition append_node :: "dom \<Rightarrow> node_id \<Rightarrow> node_id \<Rightarrow> dom" where
  "append_node d p c =
     upd (upd (remove_node d c) p (\<lambda>x. x\<lparr>childNodes := childNodes x @ [c]\<rparr>))
       c (\<lambda>x. x\<lparr>parentNode := Some p\<rparr>)"

definition prepend_node :: "dom \<Rightarrow> node_id \<Rightarrow> node_id \<Rightarrow> dom" where
  "prepend_node d p c =
     upd (upd (remove_node d c) p (\<lambda>x. x\<lparr>childNodes := c # childNodes x\<rparr>))
       c (\<lambda>x. x\<lparr>parentNode := Some p\<rparr>)"

definition insertBefore :: "dom \<Rightarrow> node_id \<Rightarrow> node_id \<Rightarrow> node_id option \<Rightarrow> dom" where
  "insertBefore d p c ref =
     (case ref of
        None \<Rightarrow> append_node d p c
      | Some r \<Rightarrow>
          upd (upd (remove_node d c) p
                 (\<lambda>x. x\<lparr>childNodes :=
                    takeWhile (\<lambda>y. y \<noteq> r) (childNodes x) @ c # dropWhile (\<lambda>y. y \<noteq> r) (childNodes x)\<rparr>))
            c (\<lambda>x. x\<lparr>parentNode := Some p\<rparr>))"

text \<open>
  \<^verbatim>\<open>parent.replaceChildren(c)\<close>: every child of the parent is taken out, then \<open>c\<close> is
  appended.
\<close>

definition replaceChildren :: "dom \<Rightarrow> node_id \<Rightarrow> node_id \<Rightarrow> dom" where
  "replaceChildren d p c =
     append_node
       (upd (fold (\<lambda>x d'. upd d' x (\<lambda>y. y\<lparr>parentNode := None\<rparr>)) (childNodes (node_at d p)) d)
          p (\<lambda>x. x\<lparr>childNodes := []\<rparr>))
       p c"

section \<open>Finding the anchor and the mount point\<close>

text \<open>\<^verbatim>\<open>a ?? b\<close>\<close>

definition orelse :: "'a option \<Rightarrow> 'a option \<Rightarrow> 'a option" where
  "orelse a b = (case a of Some x \<Rightarrow> Some x | None \<Rightarrow> b)"

text \<open>
  \<^verbatim>\<open>anchor.href\<close>. Twitter's findLinkPreview casts whatever element it finds to an anchor;
  on an element that is not one the property is \<^verbatim>\<open>undefined\<close>, which \<^verbatim>\<open>fetch\<close>
  turns into the string "undefined". An anchor with no href attribute gives the empty string.
\<close>

definition anchor_href :: "dom \<Rightarrow> node_id \<Rightarrow> string" where
  "anchor_href d n =
     (if localName (node_at d n) = ''a''
      then (case getAttribute d n ''href'' of None \<Rightarrow> [] | Some h \<Rightarrow> h)
      else ''undefined'')"

definition findElementByTestId :: "dom \<Rightarrow> node_id \<Rightarrow> string \<Rightarrow> node_id option" where
  "findElementByTestId d element testId =
     (if getAttribute d element ''data-testid'' = Some testId then Some element
      else querySelector d element (AttrEq ''data-testid'' testId))"

subsection \<open>Twitter (part_002)\<close>

definition findContainerInTweet :: "dom \<Rightarrow> node_id \<Rightarrow> bool \<Rightarrow> node_id option" where
  "findContainerInTweet d element searchUp =
     (let message =
        (if searchUp
         then orelse (closest d element (AttrEq ''data-testid'' ''tweet''))
                (closest d element (AttrEq ''data-testid'' ''messageEntry''))
         else orelse (findElementByTestId d element ''tweet'')
                (findElementByTestId d element ''messageEntry''))
      in case message of
           Some m \<Rightarrow> querySelector d m (ClassSel ''dialect-wrapper'')
         | None \<Rightarrow> None)"

text \<open>The result is the pair (anchor, card).\<close>

definition findLinkPreview_twitter :: "dom \<Rightarrow> node_id \<Rightarrow> (node_id \<times> node_id) option" where
  "findLinkPreview_twitter d element =
     (case findElementByTestId d element ''card.wrapper'' of
        None \<Rightarrow> None
      | Some card_el \<Rightarrow>
          (case children d card_el of
             [] \<Rightarrow> None
           | c0 # _ \<Rightarrow>
               (case children d c0 of
                  [] \<Rightarrow> None
                | anchor # _ \<Rightarrow> Some (anchor, card_el))))"

text \<open>The result is the pair (anchor, tweetText).\<close>

definition findLastLinkInText :: "dom \<Rightarrow> node_id \<Rightarrow> (node_id \<times> node_id) option" where
  "findLastLinkInText d element =
     (case findElementByTestId d element ''tweetText'' of
        None \<Rightarrow> None
      | Some tweetText \<Rightarrow>
          (let links = getElementsByTagName d tweetText ''a''
           in if length links > 0 then Some (last links, tweetText) else None))"

text \<open>findBookmarkButton marks the parent of the bookmark button when it returns it.\<close>

definition findBookmarkButton :: "dom \<Rightarrow> node_id \<Rightarrow> dom \<times> node_id option" where
  "findBookmarkButton d element =
     (case closest d element (AttrEq ''data-testid'' ''tweet'') of
        None \<Rightarrow> (d, None)
      | Some tweet \<Rightarrow>
          (case querySelector d tweet (AttrEq ''data-testid'' ''bookmark'') of
             None \<Rightarrow> (d, None)
           | Some likeButton \<Rightarrow>
               (case parentElement d likeButton of
                  None \<Rightarrow> (d, None)
                | Some likeButtonParent \<Rightarrow>
                    if hasAttribute d likeButtonParent ''data-dialect-processed'' then (d, None)
                    else (setAttribute d likeButtonParent ''data-dialect-processed'' ''true'',
                          Some likeButtonParent))))"

definition getContainerForLink_twitter :: "dom \<Rightarrow> node_id \<Rightarrow> dom \<times> node_id" where
  "getContainerForLink_twitter d tweetText =
     (let (d1, root) = createElement d ''div'';
          d2 = setClassName d1 root ''dialect-wrapper''
      in case closest d2 tweetText (AttrEq ''data-testid'' ''messageEntry'') of
           Some dm \<Rightarrow>
             (let d3 = classList_add d2 root ''dialect-dm''
              in (case parentElement d3 tweetText of
                    None \<Rightarrow> d3
                  | Some p \<Rightarrow>
                      (case parentElement d3 p of
                         None \<Rightarrow> d3
                       | Some g \<Rightarrow> prepend_node d3 g root),
                  root))
         | None \<Rightarrow>
             (case parentElement d2 tweetText of
                None \<Rightarrow> d2
              | Some p \<Rightarrow> append_node d2 p root,
              root))"

subsection \<open>Farcaster (part_001)\<close>

definition findContainerInCast :: "dom \<Rightarrow> node_id \<Rightarrow> bool \<Rightarrow> node_id option" where
  "findContainerInCast d element searchUp =
     (let message =
        (if searchUp
         then orelse (closest d element (TagSel ''a''))
                (closest d element (AttrEq ''data-testid'' ''messageEntry''))
         else orelse (findElementByTestId d element ''tweet'')
                (findElementByTestId d element ''messageEntry''))
      in case message of
           Some m \<Rightarrow> querySelector d m (ClassSel ''dialect-wrapper'')
         | None \<Rightarrow> None)"

text \<open>Here the card is the element itself and the anchor the first link below it.\<close>

definition findLinkPreview_farcaster :: "dom \<Rightarrow> node_id \<Rightarrow> (node_id \<times> node_id) option" where
  "findLinkPreview_farcaster d element =
     (case querySelector d element (TagSel ''a'') of
        None \<Rightarrow> None
      | Some anchor \<Rightarrow> Some (anchor, element))"

definition getContainerForLink_farcaster :: "dom \<Rightarrow> node_id \<Rightarrow> dom \<times> node_id" where
  "getContainerForLink_farcaster d castText =
     (let (d1, root) = createElement d ''div'';
          d2 = setClassName d1 root ''dialect-wrapper''
      in case closest d2 castText (AttrEq ''class'' ''relative'') of
           Some dm \<Rightarrow>
             (let d3 = classList_add d2 root ''dialect-dm''
              in (case parentElement d3 castText of
                    None \<Rightarrow> d3
                  | Some p \<Rightarrow>
                      (case parentElement d3 p of
                         None \<Rightarrow> d3
                       | Some g \<Rightarrow> prepend_node d3 g root),
                  root))
         | None \<Rightarrow>
             (case parentElement d2 castText of
                None \<Rightarrow> d2
              | Some p \<Rightarrow> append_node d2 p root,
              root))"

section \<open>Render mount\<close>

definition addMargin :: "dom \<Rightarrow> node_id \<Rightarrow> dom" where
  "addMargin d element =
     (if classList_contains d element ''dialect-wrapper''
      then (let d1 = setStyle d element ''marginTop'' ''12px''
            in if classList_contains d1 element ''dialect-dm''
               then setStyle d1 element ''marginBottom'' ''8px''
               else d1)
      else d)"

text \<open>
  createAction makes a div of class dialect-action-root-container and renders the action
  into a React root on it. The style preset it also passes is read from the page's colour
  scheme and is left out.
\<close>

definition createAction :: "dom \<Rightarrow> render \<Rightarrow> dom \<times> node_id" where
  "createAction d r =
     (let (d1, container) = createElement d ''div'';
          d2 = setClassName d1 container ''dialect-action-root-container''
      in (d2\<lparr>roots := AList.update container r (roots d2)\<rparr>, container))"

text \<open>
  The last statement of handleNewNode,
  \<^verbatim>\<open>addMargin(container).replaceChildren(createAction({...}))\<close>: the receiver is
  evaluated first, then the argument, then the call.
\<close>

definition mount :: "dom \<Rightarrow> node_id \<Rightarrow> render \<Rightarrow> dom" where
  "mount d container r =
     (let d1 = addMargin d container;
          (d2, root) = createAction d1 r
      in replaceChildren d2 container root)"

section \<open>The dropdown beside the bookmark button (part_002, createDropdown)\<close>

record dropdown_option =
  opt_name :: string
  opt_description :: string
  opt_verified :: string
  opt_act :: string

definition dropdown_options :: "dropdown_option list" where
  "dropdown_options =
     [\<lparr> opt_name = ''Access Protocol'', opt_description = ''gate your content'',
        opt_verified = ''Yes'', opt_act = ''access-protocol.dial.to'' \<rparr>,
      \<lparr> opt_name = ''Arkenstone Suite'', opt_description = ''developing a token presale Suite'',
        opt_verified = ''No'', opt_act = ''arkenstone.gold'' \<rparr>,
      \<lparr> opt_name = ''Blinks'', opt_description = ''Blinks Inspector'',
        opt_verified = ''Yes'', opt_act = ''blinks.gg'' \<rparr>,
      \<lparr> opt_name = ''Sol Casino'', opt_description = ''Roulette on Solana'',
        opt_verified = ''Yes'', opt_act = ''solcasino.io'' \<rparr>]"

text \<open>
  The markup an option's \<^verbatim>\<open>innerHTML\<close> receives, without the template's line breaks
  and indentation.
\<close>

definition option_content :: "dropdown_option \<Rightarrow> string" where
  "option_content optionData =
     ''<div style='' @ [CHR 0x22] @ ''font-weight: bold;'' @ [CHR 0x22] @ ''>Name: ''
       @ opt_name optionData @ ''</div>''
     @ ''<div>Description: '' @ opt_description optionData @ ''</div>''
     @ ''<div>Verified: '' @ opt_verified optionData @ ''</div>''
     @ ''<div>Act: '' @ opt_act optionData @ ''</div>''"

definition svg_path :: string where
  "svg_path = ''<path d='' @ [CHR 0x22]
     @ ''M3 12c0-1.1.9-2 2-2s2 .9 2 2-.9 2-2 2-2-.9-2-2zm9 2c1.1 0 2-.9 2-2s-.9-2-2-2-2 .9-2 2 .9 2 2 2zm7 0c1.1 0 2-.9 2-2s-.9-2-2-2-2 .9-2 2 .9 2 2 2z''
     @ [CHR 0x22] @ ''/>''"

text \<open>The body of \<^verbatim>\<open>options.forEach\<close>.\<close>

definition add_option :: "node_id \<Rightarrow> dropdown_option \<Rightarrow> dom \<Rightarrow> dom" where
  "add_option optionsContainer optionData d =
     (let (d1, opt) = createElement d ''div'';
          d2 = setStyles d1 opt
                 [(''padding'', ''12px''), (''borderBottom'', ''1px solid #eee''),
                  (''cursor'', ''pointer''), (''transition'', ''background-color 0.2s'')];
          d3 = setInnerHTML d2 opt (option_content optionData)
      in append_node d3 optionsContainer opt)"

definition createDropdown :: "dom \<Rightarrow> node_id \<Rightarrow> dom \<times> node_id" where
  "createDropdown d0 likeButton =
     (let (d1, dropdownContainer) = createElement d0 ''div'';
          d2 = setClassName d1 dropdownContainer ''dialect-dropdown-container'';
          d3 = setStyles d2 dropdownContainer
                 [(''display'', ''inline-flex''), (''alignItems'', ''center''),
                  (''marginLeft'', ''8px''), (''position'', ''relative'')];
          (d4, svgIcon) = createElement d3 ''svg'';
          d5 = setAttribute (setAttribute (setAttribute d4 svgIcon ''viewBox'' ''0 0 24 24'')
                 svgIcon ''width'' ''18'') svgIcon ''height'' ''18'';
          d6 = setInnerHTML (setStyle d5 svgIcon ''fill'' ''currentColor'') svgIcon svg_path;
          (d7, customDropdown) = createElement d6 ''div'';
          d8 = setClassName d7 customDropdown ''dialect-custom-dropdown'';
          d9 = setStyles d8 customDropdown
                 [(''display'', ''inline-flex''), (''alignItems'', ''center''),
                  (''cursor'', ''pointer''), (''padding'', ''6px''), (''borderRadius'', ''50%''),
                  (''transition'', ''background-color 0.2s'')];
          d10 = append_node d9 customDropdown svgIcon;
          (d11, optionsContainer) = createElement d10 ''div'';
          d12 = setClassName d11 optionsContainer ''dialect-options-container'';
          d13 = setStyles d12 optionsContainer
                 [(''display'', ''none''), (''position'', ''absolute''), (''bottom'', ''100%''),
                  (''right'', ''0''), (''backgroundColor'', ''blue''),
                  (''border'', ''1px solid #ccc''), (''borderRadius'', ''4px''),
                  (''boxShadow'', ''0 -2px 10px rgba(0,0,0,0.1)''), (''zIndex'', ''1000''),
                  (''marginBottom'', ''10px''), (''minWidth'', ''200px''),
                  (''maxHeight'', ''300px''), (''overflowY'', ''auto''),
                  (''overflowX'', ''hidden'')];
          d14 = fold (add_option optionsContainer) dropdown_options d13;
          d15 = append_node d14 customDropdown optionsContainer;
          d16 = append_node d15 dropdownContainer customDropdown;
          d17 = (case parentNode (node_at d16 likeButton) of
                   None \<Rightarrow> d16
                 | Some p \<Rightarrow> insertBefore d16 p dropdownContainer (nextSibling d16 likeButton))
      in (d17, dropdownContainer))"

section \<open>The collaborators\<close>

text \<open>
  What handleNewNode imports and calls but does not define is a parameter of the model:
  the URL parser (\<^verbatim>\<open>new URL(s)\<close>, \<open>None\<close> when it throws), the network
  (\<^verbatim>\<open>fetch\<close>, \<open>None\<close> when the promise rejects), the interstitial decoder, the three
  trust classifiers, the proxy, the manifest mapper and the action adapter.
\<close>

record URL =
  url_href :: string
  url_origin :: string
  url_hostname :: string

datatype ActionsJsonConfig = ActionsJson "(string \<times> string) list"

record env =
  parseURL :: "string \<Rightarrow> URL option"
  fetchTitle :: "string \<Rightarrow> string option"
  isInterstitial :: "URL \<Rightarrow> bool \<times> string option"
  getExtendedInterstitialState :: "string \<Rightarrow> ExtendedActionState"
  getExtendedWebsiteState :: "string \<Rightarrow> ExtendedActionState"
  getExtendedActionState :: "string \<Rightarrow> ExtendedActionState"
  proxify :: "string \<Rightarrow> string"
  fetchJson :: "string \<Rightarrow> ActionsJsonConfig option"
  mapUrl :: "ActionsJsonConfig \<Rightarrow> URL \<Rightarrow> string option"
  Action_fetch :: "string \<Rightarrow> Action option"
  isSupported :: "(string \<Rightarrow> Action \<Rightarrow> ExtendedActionState \<Rightarrow> bool) option"

text \<open>
  The calls that leave the page, in the order they are made: \<^verbatim>\<open>fetch(url)\<close>,
  \<^verbatim>\<open>Action.fetch(url, config)\<close> and \<^verbatim>\<open>config.isSupported(...)\<close>.
\<close>

datatype event = Fetch string | ActionFetch string | IsSupportedCall string

datatype stage = Interstitials | Websites | Actions

text \<open>
  How one dispatch ends. Every \<^verbatim>\<open>return\<close> of handleNewNode is one of these;
  \<open>Threw\<close> is a rejected promise, which the caller's \<^verbatim>\<open>.catch(noop)\<close> swallows.
\<close>

datatype outcome =
    NotApplicable
  | Skipped
  | NoCandidate
  | Threw
  | Rejected stage
  | NoEndpoint
  | FetchFailed
  | Unsupported
  | Mounted node_id

section \<open>The pipeline (handleNewNode)\<close>

text \<open>
  One dispatch, run on its own: the model returns the tree it leaves, the outside calls it
  made and how it ended. handleNewNode is written in three parts. The extraction is
  everything before the first \<^verbatim>\<open>await\<close>, so it runs in one piece; the resolution
  touches no node; the mount is the last statement.
\<close>

subsection \<open>Resolution: from isInterstitial to isSupported (the same lines in both files)\<close>

definition fetch_stage ::
  "env \<Rightarrow> security_levels \<Rightarrow> URL \<Rightarrow> event list \<Rightarrow> string option
     \<Rightarrow> event list \<times> (outcome + Action)" where
  "fetch_stage e options actionUrl tr actionApiUrl =
     (case actionApiUrl of
        None \<Rightarrow> (tr, Inl NoEndpoint)
      | Some api \<Rightarrow>
          if api = [] then (tr, Inl NoEndpoint)
          else
            (let state = getExtendedActionState e api
             in if \<not> checkSecurity state (actions options) then (tr, Inl (Rejected Actions))
                else
                  (case Action_fetch e api of
                     None \<Rightarrow> (tr @ [ActionFetch api], Inl FetchFailed)
                   | Some action \<Rightarrow>
                       (case isSupported e of
                          None \<Rightarrow> (tr @ [ActionFetch api], Inr action)
                        | Some supported \<Rightarrow>
                            if supported (url_href actionUrl) action state
                            then (tr @ [ActionFetch api, IsSupportedCall (url_href actionUrl)],
                                  Inr action)
                            else (tr @ [ActionFetch api, IsSupportedCall (url_href actionUrl)],
                                  Inl Unsupported)))))"

definition resolve ::
  "env \<Rightarrow> security_levels \<Rightarrow> URL \<Rightarrow> event list \<Rightarrow> event list \<times> (outcome + Action)" where
  "resolve e options actionUrl tr =
     (let interstitialData = isInterstitial e actionUrl
      in if fst interstitialData
         then
           (if \<not> checkSecurity (getExtendedInterstitialState e (url_href actionUrl))
                   (interstitials options)
            then (tr, Inl (Rejected Interstitials))
            else fetch_stage e options actionUrl tr (snd interstitialData))
         else
           (if \<not> checkSecurity (getExtendedWebsiteState e (url_href actionUrl))
                   (websites options)
            then (tr, Inl (Rejected Websites))
            else
              (let actionsJsonUrl = url_origin actionUrl @ ''/actions.json''
               in case fetchJson e (proxify e actionsJsonUrl) of
                    None \<Rightarrow> (tr @ [Fetch (proxify e actionsJsonUrl)], Inl Threw)
                  | Some actionsJson \<Rightarrow>
                      fetch_stage e options actionUrl (tr @ [Fetch (proxify e actionsJsonUrl)])
                        (mapUrl e actionsJson actionUrl))))"

definition render_of :: "security_levels \<Rightarrow> URL \<Rightarrow> Action \<Rightarrow> render" where
  "render_of options originalUrl action =
     \<lparr> r_action = action, websiteUrl = url_href originalUrl,
       websiteText = url_hostname originalUrl, r_securityLevel = options \<rparr>"

subsection \<open>Farcaster (part_001)\<close>

text \<open>
  Lines 117 to 158. The result is the tree and either the way the dispatch ended or the
  pair (anchor, container). Without a link preview the anchor stays undefined, so that
  branch ends the dispatch after getContainerForLink has run.
\<close>

definition extract_farcaster :: "dom \<Rightarrow> node_id \<Rightarrow> dom \<times> (outcome + node_id \<times> node_id)" where
  "extract_farcaster d element =
     (if localName (node_at d element) \<noteq> ''div'' then (d, Inl NotApplicable)
      else if \<not> str_includes (className d element) '' fade-in''
              \<and> \<not> str_includes (className d element) ''relative''
      then (d, Inl NotApplicable)
      else
        (let linkPreview = findLinkPreview_farcaster d element;
             container = findContainerInCast d
                           (case linkPreview of Some (a, card_el) \<Rightarrow> card_el | None \<Rightarrow> element)
                           (linkPreview \<noteq> None)
         in case linkPreview of
              Some (anchor, card_el) \<Rightarrow>
                (let d1 = (case container of Some c \<Rightarrow> remove_node d c | None \<Rightarrow> d)
                 in case parentElement d1 card_el of
                      None \<Rightarrow> (d1, Inl NoCandidate)
                    | Some c \<Rightarrow> (d1, Inr (anchor, c)))
            | None \<Rightarrow>
                (let (d1, c) = getContainerForLink_farcaster d element
                 in (d1, Inl NoCandidate))))"

definition handleNewNode_farcaster ::
  "env \<Rightarrow> security_levels \<Rightarrow> dom \<Rightarrow> node_id \<Rightarrow> dom \<times> event list \<times> outcome" where
  "handleNewNode_farcaster e options d element =
     (case extract_farcaster d element of
        (d1, Inl out) \<Rightarrow> (d1, [], out)
      | (d1, Inr (anchor, container)) \<Rightarrow>
          (case parseURL e (anchor_href d1 anchor) of
             None \<Rightarrow> (d1, [], Threw)
           | Some actionUrl \<Rightarrow>
               (case resolve e options actionUrl [] of
                  (tr, Inl out) \<Rightarrow> (d1, tr, out)
                | (tr, Inr action) \<Rightarrow>
                    (mount d1 container (render_of options actionUrl action), tr,
                     Mounted container))))"

subsection \<open>Twitter (part_002)\<close>

text \<open>Lines 117 to 122: the dropdown is appended to the node findBookmarkButton returns.\<close>

definition bookmark_step :: "dom \<Rightarrow> node_id \<Rightarrow> dom" where
  "bookmark_step d element =
     (case findBookmarkButton d element of
        (d1, None) \<Rightarrow> d1
      | (d1, Some likeButton) \<Rightarrow>
          (let (d2, dropdown) = createDropdown d1 likeButton
           in append_node d2 likeButton dropdown))"

text \<open>Lines 109 to 143. findLinkPreview is evaluated before the dropdown is inserted.\<close>

definition extract_twitter :: "dom \<Rightarrow> node_id \<Rightarrow> dom \<times> (outcome + node_id \<times> node_id)" where
  "extract_twitter d element =
     (if localName (node_at d element) \<noteq> ''div'' then (d, Inl NotApplicable)
      else
        (let linkPreview = findLinkPreview_twitter d element;
             d1 = bookmark_step d element;
             container = findContainerInTweet d1
                           (case linkPreview of Some (a, card_el) \<Rightarrow> card_el | None \<Rightarrow> element)
                           (linkPreview \<noteq> None)
         in case linkPreview of
              Some (anchor, card_el) \<Rightarrow>
                (let d2 = (case container of Some c \<Rightarrow> remove_node d1 c | None \<Rightarrow> d1)
                 in case parentElement d2 card_el of
                      None \<Rightarrow> (d2, Inl NoCandidate)
                    | Some c \<Rightarrow> (d2, Inr (anchor, c)))
            | None \<Rightarrow>
                (case container of
                   Some c \<Rightarrow> (d1, Inl Skipped)
                 | None \<Rightarrow>
                     (case findLastLinkInText d1 element of
                        None \<Rightarrow> (d1, Inl NoCandidate)
                      | Some (anchor, tweetText) \<Rightarrow>
                          (let (d2, c) = getContainerForLink_twitter d1 tweetText
                           in (d2, Inr (anchor, c)))))))"

text \<open>
  resolveTwitterShortenedUrl fetches the shortened URL and parses the text of the page's
  title as a URL; \<open>fetchTitle\<close> is that text, \<open>None\<close> when the fetch fails or the page
  has no title (the parse then throws).
\<close>

definition handleNewNode_twitter ::
  "env \<Rightarrow> security_levels \<Rightarrow> dom \<Rightarrow> node_id \<Rightarrow> dom \<times> event list \<times> outcome" where
  "handleNewNode_twitter e options d element =
     (case extract_twitter d element of
        (d1, Inl out) \<Rightarrow> (d1, [], out)
      | (d1, Inr (anchor, container)) \<Rightarrow>
          (let shortenedUrl = anchor_href d1 anchor
           in case fetchTitle e shortenedUrl of
                None \<Rightarrow> (d1, [Fetch shortenedUrl], Threw)
              | Some title \<Rightarrow>
                  (case parseURL e title of
                     None \<Rightarrow> (d1, [Fetch shortenedUrl], Threw)
                   | Some actionUrl \<Rightarrow>
                       (case resolve e options actionUrl [Fetch shortenedUrl] of
                          (tr, Inl out) \<Rightarrow> (d1, tr, out)
                        | (tr, Inr action) \<Rightarrow>
                            (mount d1 container (render_of options actionUrl action), tr,
                             Mounted container)))))"

section \<open>The tree watcher (setupFarcasterObserver, setupTwitterObserver)\<close>

text \<open>
  The MutationObserver callback, the same in both files: the nodes handleNewNode is
  called on, in order. The inner loop's \<^verbatim>\<open>return\<close> on a node that is not an element
  leaves the whole callback; the flag of \<open>scan_addedNodes\<close> says that it was taken.
\<close>

fun scan_addedNodes :: "dom \<Rightarrow> node_id list \<Rightarrow> node_id list \<times> bool" where
  "scan_addedNodes d [] = ([], False)"
| "scan_addedNodes d (n # ns) =
     (if nodeType (node_at d n) \<noteq> ELEMENT_NODE then ([], True)
      else (case scan_addedNodes d ns of (ds, r) \<Rightarrow> (n # ds, r)))"

fun observer_callback :: "dom \<Rightarrow> node_id list list \<Rightarrow> node_id list" where
  "observer_callback d [] = []"
| "observer_callback d (addedNodes # mutations) =
     (case scan_addedNodes d addedNodes of
        (ds, True) \<Rightarrow> ds
      | (ds, False) \<Rightarrow> ds @ observer_callback d mutations)"

text \<open>
  The setup functions over time. The registry's \<^verbatim>\<open>init()\<close> promise is pending until the
  page event \<open>InitSettled\<close> fulfils or rejects it; the callback given to \<^verbatim>\<open>then\<close> runs on
  fulfilment only, and it is that callback which creates the observer and attaches it to
  the root. A batch of mutations reaches the callback only while the observer is attached.
\<close>

datatype promise_state = Pending | Fulfilled | Failed

record watcher =
  init_state :: promise_state
  then_registered :: bool
  root :: "node_id option"
  observing :: bool
  dispatched :: "node_id list"

datatype page_event = InitSettled bool | MutationBatch "node_id list list"

text \<open>
  Farcaster returns before calling \<^verbatim>\<open>init()\<close> when the page has no root element;
  Twitter goes on, and \<^verbatim>\<open>observer.observe(null, ...)\<close> then throws.
\<close>

definition setupFarcasterObserver :: "node_id option \<Rightarrow> watcher" where
  "setupFarcasterObserver farcasterRoot =
     \<lparr> init_state = Pending, then_registered = (farcasterRoot \<noteq> None), root = farcasterRoot,
       observing = False, dispatched = [] \<rparr>"

definition setupTwitterObserver :: "node_id option \<Rightarrow> watcher" where
  "setupTwitterObserver twitterReactRoot =
     \<lparr> init_state = Pending, then_registered = True, root = twitterReactRoot,
       observing = False, dispatched = [] \<rparr>"

fun watcher_step :: "dom \<Rightarrow> watcher \<Rightarrow> page_event \<Rightarrow> watcher" where
  "watcher_step d w (InitSettled ok) =
     (if init_state w \<noteq> Pending then w
      else w\<lparr> init_state := (if ok then Fulfilled else Failed),
              observing := (ok \<and> then_registered w \<and> root w \<noteq> None) \<rparr>)"
| "watcher_step d w (MutationBatch mutations) =
     (if observing w then w\<lparr> dispatched := dispatched w @ observer_callback d mutations \<rparr>
      else w)"

definition watcher_run :: "dom \<Rightarrow> watcher \<Rightarrow> page_event list \<Rightarrow> watcher" where
  "watcher_run d w evs = foldl (watcher_step d) w evs"

section \<open>Example pages and collaborators\<close>

text \<open>
  \<open>page ns\<close> is the store whose node \<open>i\<close> is the \<open>i\<close>-th entry of \<open>ns\<close>;
  \<open>elem\<close> and \<open>text_node\<close> write one node down.
\<close>

definition elem ::
  "string \<Rightarrow> (string \<times> string) list \<Rightarrow> node_id option \<Rightarrow> node_id list \<Rightarrow> node" where
  "elem tag as p cs =
     \<lparr> nodeType = ELEMENT_NODE, localName = tag, attrs = as, style = [],
       innerHTML = [], parentNode = p, childNodes = cs \<rparr>"

definition text_node :: "node_id option \<Rightarrow> node" where
  "text_node p =
     \<lparr> nodeType = TEXT_NODE, localName = [], attrs = [], style = [],
       innerHTML = [], parentNode = p, childNodes = [] \<rparr>"

definition page :: "node list \<Rightarrow> dom" where
  "page ns = \<lparr> nodes = ns, roots = [] \<rparr>"

text \<open>
  A cast on Farcaster: a div (0) holding the inserted div of class "relative" (1), which
  holds a link (2).
\<close>

definition cast_page :: dom where
  "cast_page = page
     [elem ''div'' [] None [1],
      elem ''div'' [(''class'', ''relative'')] (Some 0) [2],
      elem ''a'' [(''href'', ''https://example.com/x'')] (Some 1) []]"

definition example_url :: URL where
  "example_url = \<lparr> url_href = ''https://example.com/x'', url_origin = ''https://example.com'',
     url_hostname = ''example.com'' \<rparr>"

text \<open>
  Collaborators for \<^verbatim>\<open>https://example.com/x\<close>: not an interstitial, every trust state
  as given by \<open>st\<close>, a manifest that maps the page to \<^verbatim>\<open>/api/action\<close>, an action that
  is fetched, and an adapter whose isSupported answers \<open>supp\<close>.
\<close>

definition example_env :: "ExtendedActionState \<Rightarrow> bool \<Rightarrow> env" where
  "example_env st supp =
     \<lparr> parseURL = (\<lambda>s. if s = ''https://example.com/x'' then Some example_url else None),
       fetchTitle = (\<lambda>s. if s = ''https://t.co/abc'' then Some ''https://example.com/x'' else None),
       isInterstitial = (\<lambda>u. (False, None)),
       getExtendedInterstitialState = (\<lambda>u. st),
       getExtendedWebsiteState = (\<lambda>u. st),
       getExtendedActionState = (\<lambda>u. st),
       proxify = (\<lambda>u. ''https://proxy.dial.to/?url='' @ u),
       fetchJson = (\<lambda>u. Some (ActionsJson [(''/x'', ''/api/action'')])),
       mapUrl = (\<lambda>j u. Some ''https://example.com/api/action''),
       Action_fetch = (\<lambda>u. Some (ActionDescriptor ''donate'')),
       isSupported = Some (\<lambda>u a s. supp) \<rparr>"

definition websites_only_trusted :: security_levels where
  "websites_only_trusted = \<lparr> websites = OnlyTrusted, interstitials = All, actions = All \<rparr>"

text \<open>
  A tweet on Twitter: a cell (0) holding the tweet (1); in the tweet a div (2) around the
  tweet text (3) with one shortened link (4).
\<close>

definition tweet_page :: dom where
  "tweet_page = page
     [elem ''div'' [] None [1],
      elem ''div'' [(''data-testid'', ''tweet'')] (Some 0) [2],
      elem ''div'' [] (Some 1) [3],
      elem ''div'' [(''data-testid'', ''tweetText'')] (Some 2) [4],
      elem ''a'' [(''href'', ''https://t.co/abc'')] (Some 3) []]"


text \<open>A batch of the watcher: a text node (0) followed by a div (1), both added to 2.\<close>

definition mixed_batch_page :: dom where
  "mixed_batch_page = page
     [text_node (Some 2),
      elem ''div'' [(''class'', ''relative'')] (Some 2) [],
      elem ''div'' [] None [0, 1]]"

text \<open>
  The pages the dispatches below leave behind: the cast after its mount, and the tweet
  after one and after two dispatches on the div around the tweet text.
\<close>

definition example_render :: render where
  "example_render = render_of websites_only_trusted example_url (ActionDescriptor ''donate'')"

definition example_trace :: "event list" where
  "example_trace =
     [Fetch ''https://proxy.dial.to/?url=https://example.com/actions.json'',
      ActionFetch ''https://example.com/api/action'',
      IsSupportedCall ''https://example.com/x'']"

definition cast_page_mounted :: dom where
  "cast_page_mounted =
     \<lparr> nodes =
         [elem ''div'' [] None [3],
          elem ''div'' [(''class'', ''relative'')] None [2],
          elem ''a'' [(''href'', ''https://example.com/x'')] (Some 1) [],
          elem ''div'' [(''class'', ''dialect-action-root-container'')] (Some 0) []],
       roots = [(3, example_render)] \<rparr>"

definition wrapper_node :: "node_id option \<Rightarrow> node_id list \<Rightarrow> node" where
  "wrapper_node p cs =
     (elem ''div'' [(''class'', ''dialect-wrapper'')] p cs)\<lparr>style := [(''marginTop'', ''12px'')]\<rparr>"

definition tweet_page_1 :: dom where
  "tweet_page_1 =
     \<lparr> nodes =
         [elem ''div'' [] None [1],
          elem ''div'' [(''data-testid'', ''tweet'')] (Some 0) [2],
          elem ''div'' [] (Some 1) [3, 5],
          elem ''div'' [(''data-testid'', ''tweetText'')] (Some 2) [4],
          elem ''a'' [(''href'', ''https://t.co/abc'')] (Some 3) [],
          wrapper_node (Some 2) [6],
          elem ''div'' [(''class'', ''dialect-action-root-container'')] (Some 5) []],
       roots = [(6, example_render)] \<rparr>"

definition tweet_page_2 :: dom where
  "tweet_page_2 =
     \<lparr> nodes =
         [elem ''div'' [] None [1],
          elem ''div'' [(''data-testid'', ''tweet'')] (Some 0) [2],
          elem ''div'' [] (Some 1) [3, 5, 7],
          elem ''div'' [(''data-testid'', ''tweetText'')] (Some 2) [4],
          elem ''a'' [(''href'', ''https://t.co/abc'')] (Some 3) [],
          wrapper_node (Some 2) [6],
          elem ''div'' [(''class'', ''dialect-action-root-container'')] (Some 5) [],
          wrapper_node (Some 2) [8],
          elem ''div'' [(''class'', ''dialect-action-root-container'')] (Some 7) []],
       roots = [(6, example_render), (8, example_render)] \<rparr>"


section \<open>Relations between trees\<close>

text \<open>
  \<open>frame R d d'\<close>: the tree \<open>d'\<close> has every node of \<open>d\<close>, each related by \<open>R\<close> to
  what it was. With \<open>grows_attrs\<close> a node keeps every attribute it had (the value may
  change); with \<open>same_style\<close> it keeps its inline style.
\<close>

definition frame :: "(node \<Rightarrow> node \<Rightarrow> bool) \<Rightarrow> dom \<Rightarrow> dom \<Rightarrow> bool" where
  "frame R d d' = (next_id d \<le> next_id d' \<and> (\<forall>p<next_id d. R (node_at d p) (node_at d' p)))"

definition preorder :: "(node \<Rightarrow> node \<Rightarrow> bool) \<Rightarrow> bool" where
  "preorder R = ((\<forall>x. R x x) \<and> (\<forall>x y z. R x y \<longrightarrow> R y z \<longrightarrow> R x z))"

definition structural :: "(node \<Rightarrow> node \<Rightarrow> bool) \<Rightarrow> bool" where
  "structural R = (preorder R \<and> (\<forall>x p. R x (x\<lparr>parentNode := p\<rparr>))
      \<and> (\<forall>x cs. R x (x\<lparr>childNodes := cs\<rparr>)))"

definition grows_attrs :: "node \<Rightarrow> node \<Rightarrow> bool" where
  "grows_attrs x y = (\<forall>k. map_of (attrs x) k \<noteq> None \<longrightarrow> map_of (attrs y) k \<noteq> None)"

definition keeps :: "dom \<Rightarrow> dom \<Rightarrow> bool" where
  "keeps d d' = frame grows_attrs d d'"

named_theorems keeps_intros

definition same_style :: "node \<Rightarrow> node \<Rightarrow> bool" where
  "same_style x y = (style y = style x)"



definition wrappers_page :: dom where
  "wrappers_page = page
     [elem ''div'' [] None [1, 2],
      elem ''div'' [(''class'', ''dialect-wrapper'')] (Some 0) [],
      elem ''div'' [(''class'', ''dialect-wrapper dialect-dm'')] (Some 0) []]"

section \<open>Dispatches interleaved\<close>





section \<open>Evaluating the examples\<close>

lemmas dom_defs = next_id_def node_at_def upd_def blank_def createElement_def getAttribute_def
  hasAttribute_def setAttribute_def getStyle_def setStyle_def setInnerHTML_def className_def
  setClassName_def is_ws_def classList_def classList_contains_def classList_add_def
  matches_def parentElement_def children_def descendants_def querySelector_def
  getElementsByTagName_def closest_def nextSibling_def remove_node_def append_node_def
  prepend_node_def insertBefore_def replaceChildren_def orelse_def anchor_href_def
  findElementByTestId_def

lemmas fc_defs = findContainerInCast_def findLinkPreview_farcaster_def getContainerForLink_farcaster_def
  extract_farcaster_def handleNewNode_farcaster_def addMargin_def createAction_def mount_def
  resolve_def fetch_stage_def render_of_def checkSecurity_def

lemmas ex_defs = page_def elem_def text_node_def cast_page_def example_env_def example_url_def websites_only_trusted_def

lemmas tw_defs = findContainerInTweet_def findLinkPreview_twitter_def findLastLinkInText_def
  findBookmarkButton_def getContainerForLink_twitter_def bookmark_step_def extract_twitter_def
  handleNewNode_twitter_def addMargin_def createAction_def mount_def
  resolve_def fetch_stage_def render_of_def checkSecurity_def

lemmas res_defs = example_render_def example_trace_def cast_page_mounted_def wrapper_node_def
  tweet_page_1_def tweet_page_2_def

lemma cast_dispatch:
  "handleNewNode_farcaster (example_env st True) websites_only_trusted cast_page 1
     = (cast_page_mounted, example_trace, Mounted 0)"
  by (simp add: dom_defs fc_defs ex_defs res_defs) (simp add: Let_def eval_nat_numeral)?

lemma tweet_dispatch_1:
  "handleNewNode_twitter (example_env st True) websites_only_trusted tweet_page 2
     = (tweet_page_1, Fetch ''https://t.co/abc'' # example_trace, Mounted 5)"
  by (simp add: dom_defs tw_defs ex_defs res_defs tweet_page_def) (simp add: Let_def eval_nat_numeral)?

lemma tweet_dispatch_2:
  "handleNewNode_twitter (example_env st True) websites_only_trusted tweet_page_1 2
     = (tweet_page_2, Fetch ''https://t.co/abc'' # example_trace, Mounted 7)"
  by (simp add: dom_defs tw_defs ex_defs res_defs) (simp add: Let_def eval_nat_numeral)?



lemma wrappers_facts:
  "classList_contains wrappers_page 1 ''dialect-wrapper''"
  "\<not> classList_contains wrappers_page 1 ''dialect-dm''"
  "classList_contains wrappers_page 2 ''dialect-wrapper''"
  "classList_contains wrappers_page 2 ''dialect-dm''"
  "\<not> classList_contains wrappers_page 0 ''dialect-wrapper''"
  "next_id wrappers_page = 3"
  by (simp_all add: dom_defs ex_defs wrappers_page_def)

lemma skip_facts:
  "localName (node_at tweet_page_1 0) = ''div''"
  "findLinkPreview_twitter tweet_page_1 0 = None"
  "bookmark_step tweet_page_1 0 = tweet_page_1"
  "findContainerInTweet tweet_page_1 0 False = Some 5"
  by (simp_all add: dom_defs tw_defs ex_defs res_defs eval_nat_numeral)

lemma two_wrappers:
  "filter (\<lambda>n. classList_contains tweet_page_2 n ''dialect-wrapper'')
     (childNodes (node_at tweet_page_2 2)) = [5, 7]"
  by (simp add: dom_defs ex_defs res_defs)

lemma cast_mounted_facts:
  "parentElement cast_page 1 = Some 0"
  "getStyle cast_page_mounted 0 ''marginTop'' = None"
  by (simp_all add: dom_defs ex_defs res_defs)



section \<open>Lemmas about the tree operations\<close>

lemma next_id_upd [simp]: "next_id (upd d n f) = next_id d"
  by (simp add: next_id_def upd_def)

lemma roots_upd [simp]: "roots (upd d n f) = roots d"
  by (simp add: upd_def)

lemma node_at_upd:
  "node_at (upd d n f) m = (if m = n \<and> n < next_id d then f (node_at d n) else node_at d m)"
  by (auto simp add: node_at_def upd_def next_id_def)

lemma next_id_createElement [simp]: "next_id (fst (createElement d t)) = Suc (next_id d)"
  by (simp add: createElement_def next_id_def)

lemma snd_createElement [simp]: "snd (createElement d t) = next_id d"
  by (simp add: createElement_def)

lemma roots_createElement [simp]: "roots (fst (createElement d t)) = roots d"
  by (simp add: createElement_def)

lemma node_at_createElement:
  "node_at (fst (createElement d t)) m = (if m = next_id d then blank t else node_at d m)"
  by (auto simp add: node_at_def createElement_def next_id_def nth_append)

lemma node_at_roots_update [simp]: "node_at (d\<lparr>roots := r\<rparr>) m = node_at d m"
  by (simp add: node_at_def)

lemma next_id_roots_update [simp]: "next_id (d\<lparr>roots := r\<rparr>) = next_id d"
  by (simp add: next_id_def)

lemma frame_refl: "preorder R \<Longrightarrow> frame R d d"
  by (simp add: frame_def preorder_def)

lemma frame_trans: "preorder R \<Longrightarrow> frame R d d' \<Longrightarrow> frame R d' d'' \<Longrightarrow> frame R d d''"
  unfolding frame_def preorder_def
  by (meson le_trans less_le_trans)

lemma frame_upd: "preorder R \<Longrightarrow> (\<And>x. R x (f x)) \<Longrightarrow> frame R d (upd d n f)"
  by (simp add: frame_def preorder_def node_at_upd)

lemma frame_createElement: "preorder R \<Longrightarrow> frame R d (fst (createElement d t))"
  by (simp add: frame_def preorder_def node_at_createElement)

lemma frame_roots_update: "preorder R \<Longrightarrow> frame R d (d\<lparr>roots := r\<rparr>)"
  by (simp add: frame_def preorder_def)

lemma frame_remove_node: "structural R \<Longrightarrow> frame R d (remove_node d n)"
  unfolding remove_node_def structural_def
  by (auto split: option.splits intro!: frame_refl frame_upd
        intro: frame_trans[OF _ frame_upd frame_upd])

lemma frame_append_node: "structural R \<Longrightarrow> frame R d (append_node d p c)"
  unfolding append_node_def
  by (rule frame_trans[OF _ frame_remove_node frame_trans[OF _ frame_upd frame_upd]])
     (auto simp add: structural_def)

lemma frame_prepend_node: "structural R \<Longrightarrow> frame R d (prepend_node d p c)"
  unfolding prepend_node_def
  by (rule frame_trans[OF _ frame_remove_node frame_trans[OF _ frame_upd frame_upd]])
     (auto simp add: structural_def)

lemma frame_insertBefore: "structural R \<Longrightarrow> frame R d (insertBefore d p c r)"
  unfolding insertBefore_def
  apply (cases r)
   apply (simp add: frame_append_node)
  apply simp
  apply (rule frame_trans[OF _ frame_remove_node frame_trans[OF _ frame_upd frame_upd]])
  apply (auto simp add: structural_def)
  done

lemma frame_fold_upd:
  "preorder R \<Longrightarrow> (\<And>x. R x (f x)) \<Longrightarrow> frame R d (fold (\<lambda>x d'. upd d' x f) xs d)"
proof (induction xs arbitrary: d)
  case Nil
  then show ?case by (simp add: frame_refl)
next
  case (Cons a xs)
  have "frame R d (upd d a f)" using Cons.prems by (intro frame_upd)
  moreover have "frame R (upd d a f) (fold (\<lambda>x d'. upd d' x f) xs (upd d a f))"
    using Cons.prems by (intro Cons.IH)
  ultimately show ?case using Cons.prems(1) by (auto intro: frame_trans)
qed

lemma frame_replaceChildren: "structural R \<Longrightarrow> frame R d (replaceChildren d p c)"
  unfolding replaceChildren_def
  apply (rule frame_trans[OF _ _ frame_append_node])
    apply (simp add: structural_def)
   apply (rule frame_trans[OF _ frame_fold_upd frame_upd])
  apply (auto simp add: structural_def)
  done

lemma preorder_grows_attrs: "preorder grows_attrs"
  by (auto simp add: preorder_def grows_attrs_def)

lemma structural_grows_attrs: "structural grows_attrs"
  by (simp add: structural_def preorder_grows_attrs grows_attrs_def)


lemma keeps_trans: "keeps d d' \<Longrightarrow> keeps d' d'' \<Longrightarrow> keeps d d''"
  unfolding keeps_def by (rule frame_trans[OF preorder_grows_attrs])

lemma keeps_upd:
  assumes "\<And>x. grows_attrs x (f x)" and "keeps d d1"
  shows "keeps d (upd d1 n f)"
proof -
  have "keeps d1 (upd d1 n f)"
    unfolding keeps_def by (rule frame_upd[OF preorder_grows_attrs]) (rule assms(1))
  with assms(2) show ?thesis by (rule keeps_trans)
qed

lemma keeps_setAttribute [keeps_intros]: "keeps d d1 \<Longrightarrow> keeps d (setAttribute d1 n k v)"
  unfolding setAttribute_def
  by (rule keeps_upd) (auto simp add: grows_attrs_def update_conv')

lemma keeps_setClassName [keeps_intros]: "keeps d d1 \<Longrightarrow> keeps d (setClassName d1 n c)"
  unfolding setClassName_def by (rule keeps_setAttribute)

lemma keeps_classList_add [keeps_intros]: "keeps d d1 \<Longrightarrow> keeps d (classList_add d1 n c)"
  unfolding classList_add_def Let_def by (rule keeps_setClassName)

lemma keeps_setStyle [keeps_intros]: "keeps d d1 \<Longrightarrow> keeps d (setStyle d1 n k v)"
  unfolding setStyle_def
  by (rule keeps_upd) (auto simp add: grows_attrs_def)

lemma keeps_setStyles [keeps_intros]: "keeps d d1 \<Longrightarrow> keeps d (setStyles d1 n kvs)"
proof (induction kvs arbitrary: d1)
  case Nil
  then show ?case by simp
next
  case (Cons kv kvs)
  from Cons.IH[OF keeps_setStyle[OF Cons.prems]] show ?case by (cases kv) simp
qed

lemma keeps_setInnerHTML [keeps_intros]: "keeps d d1 \<Longrightarrow> keeps d (setInnerHTML d1 n h)"
  unfolding setInnerHTML_def
  by (rule keeps_upd) (auto simp add: grows_attrs_def)

lemma keeps_createElement [keeps_intros]: "keeps d d1 \<Longrightarrow> keeps d (fst (createElement d1 t))"
  by (erule keeps_trans) (simp add: keeps_def frame_createElement preorder_grows_attrs)

lemma keeps_remove_node [keeps_intros]: "keeps d d1 \<Longrightarrow> keeps d (remove_node d1 n)"
  by (erule keeps_trans) (simp add: keeps_def frame_remove_node structural_grows_attrs)

lemma keeps_append_node [keeps_intros]: "keeps d d1 \<Longrightarrow> keeps d (append_node d1 p c)"
  by (erule keeps_trans) (simp add: keeps_def frame_append_node structural_grows_attrs)

lemma keeps_prepend_node [keeps_intros]: "keeps d d1 \<Longrightarrow> keeps d (prepend_node d1 p c)"
  by (erule keeps_trans) (simp add: keeps_def frame_prepend_node structural_grows_attrs)

lemma keeps_insertBefore [keeps_intros]: "keeps d d1 \<Longrightarrow> keeps d (insertBefore d1 p c r)"
  by (erule keeps_trans) (simp add: keeps_def frame_insertBefore structural_grows_attrs)

lemma keeps_replaceChildren [keeps_intros]: "keeps d d1 \<Longrightarrow> keeps d (replaceChildren d1 p c)"
  by (erule keeps_trans) (simp add: keeps_def frame_replaceChildren structural_grows_attrs)

lemma keeps_roots_update [keeps_intros]: "keeps d d1 \<Longrightarrow> keeps d (d1\<lparr>roots := r\<rparr>)"
  by (erule keeps_trans) (simp add: keeps_def frame_roots_update preorder_grows_attrs)

lemma keeps_addMargin [keeps_intros]: "keeps d d1 \<Longrightarrow> keeps d (addMargin d1 c)"
  unfolding addMargin_def Let_def by (auto intro: keeps_intros)

lemma keeps_createAction [keeps_intros]: "keeps d d1 \<Longrightarrow> keeps d (fst (createAction d1 r))"
  unfolding createAction_def Let_def split_def by (auto intro!: keeps_intros)

lemma keeps_mount [keeps_intros]: "keeps d d1 \<Longrightarrow> keeps d (mount d1 c r)"
  unfolding mount_def Let_def split_def by (auto intro!: keeps_intros)

lemma keeps_add_option [keeps_intros]: "keeps d d1 \<Longrightarrow> keeps d (add_option oc od d1)"
  unfolding add_option_def Let_def split_def by (auto intro!: keeps_intros)

lemma keeps_fold_add_option [keeps_intros]:
  "keeps d d1 \<Longrightarrow> keeps d (fold (add_option oc) ods d1)"
proof (induction ods arbitrary: d1)
  case Nil
  then show ?case by simp
next
  case (Cons od ods)
  from Cons.IH[OF keeps_add_option[OF Cons.prems]] show ?case by simp
qed

lemma keeps_createDropdown [keeps_intros]:
  "keeps d d1 \<Longrightarrow> keeps d (fst (createDropdown d1 lb))"
  unfolding createDropdown_def Let_def split_def
  by (auto intro!: keeps_intros split: option.split)

lemma keeps_findBookmarkButton [keeps_intros]:
  "keeps d d1 \<Longrightarrow> keeps d (fst (findBookmarkButton d1 el))"
  unfolding findBookmarkButton_def
  by (auto intro!: keeps_intros split: option.split)

lemma keeps_bookmark_step [keeps_intros]: "keeps d d1 \<Longrightarrow> keeps d (bookmark_step d1 el)"
  unfolding bookmark_step_def Let_def split_def
  by (auto intro!: keeps_intros split: option.split prod.split)

lemma keeps_getContainerForLink_twitter [keeps_intros]:
  "keeps d d1 \<Longrightarrow> keeps d (fst (getContainerForLink_twitter d1 t))"
  unfolding getContainerForLink_twitter_def Let_def split_def
  by (auto intro!: keeps_intros split: option.split)

lemma keeps_extract_twitter [keeps_intros]:
  "keeps d d1 \<Longrightarrow> keeps d (fst (extract_twitter d1 el))"
  unfolding extract_twitter_def Let_def split_def
  by (auto intro!: keeps_intros split: option.split prod.split)

lemma keeps_handleNewNode_twitter [keeps_intros]:
  "keeps d d1 \<Longrightarrow> keeps d (fst (handleNewNode_twitter e options d1 el))"
proof -
  assume "keeps d d1"
  then have k: "keeps d (fst (extract_twitter d1 el))" by (rule keeps_extract_twitter)
  show ?thesis
    unfolding handleNewNode_twitter_def Let_def
    using k by (auto intro!: keeps_mount split: option.split prod.split sum.split)
qed



subsection \<open>The size of the store and the React roots through the operations\<close>

lemma next_id_setAttribute [simp]: "next_id (setAttribute d n k v) = next_id d"
  by (simp add: setAttribute_def)
lemma next_id_setStyle [simp]: "next_id (setStyle d n k v) = next_id d"
  by (simp add: setStyle_def)
lemma next_id_setStyles [simp]: "next_id (setStyles d n kvs) = next_id d"
  by (induction kvs arbitrary: d) auto
lemma next_id_setInnerHTML [simp]: "next_id (setInnerHTML d n h) = next_id d"
  by (simp add: setInnerHTML_def)
lemma next_id_setClassName [simp]: "next_id (setClassName d n c) = next_id d"
  by (simp add: setClassName_def)
lemma next_id_classList_add [simp]: "next_id (classList_add d n c) = next_id d"
  by (simp add: classList_add_def Let_def)
lemma next_id_remove_node [simp]: "next_id (remove_node d n) = next_id d"
  by (simp add: remove_node_def split: option.split)
lemma next_id_append_node [simp]: "next_id (append_node d p c) = next_id d"
  by (simp add: append_node_def)
lemma next_id_prepend_node [simp]: "next_id (prepend_node d p c) = next_id d"
  by (simp add: prepend_node_def)
lemma next_id_insertBefore [simp]: "next_id (insertBefore d p c r) = next_id d"
  by (simp add: insertBefore_def split: option.split)
lemma next_id_fold_upd [simp]: "next_id (fold (\<lambda>x d'. upd d' x f) xs d) = next_id d"
  by (induction xs arbitrary: d) auto
lemma next_id_replaceChildren [simp]: "next_id (replaceChildren d p c) = next_id d"
  by (simp add: replaceChildren_def)
lemma next_id_addMargin [simp]: "next_id (addMargin d c) = next_id d"
  by (simp add: addMargin_def Let_def)
lemma next_id_createAction [simp]: "next_id (fst (createAction d r)) = Suc (next_id d)"
  by (simp add: createAction_def Let_def split_def)
lemma snd_createAction [simp]: "snd (createAction d r) = next_id d"
  by (simp add: createAction_def Let_def split_def)
lemma next_id_mount [simp]: "next_id (mount d c r) = Suc (next_id d)"
  by (simp add: mount_def Let_def split_def)

lemma roots_setAttribute [simp]: "roots (setAttribute d n k v) = roots d"
  by (simp add: setAttribute_def)
lemma roots_setStyle [simp]: "roots (setStyle d n k v) = roots d"
  by (simp add: setStyle_def)
lemma roots_setStyles [simp]: "roots (setStyles d n kvs) = roots d"
  by (induction kvs arbitrary: d) auto
lemma roots_setInnerHTML [simp]: "roots (setInnerHTML d n h) = roots d"
  by (simp add: setInnerHTML_def)
lemma roots_setClassName [simp]: "roots (setClassName d n c) = roots d"
  by (simp add: setClassName_def)
lemma roots_classList_add [simp]: "roots (classList_add d n c) = roots d"
  by (simp add: classList_add_def Let_def)
lemma roots_remove_node [simp]: "roots (remove_node d n) = roots d"
  by (simp add: remove_node_def split: option.split)
lemma roots_append_node [simp]: "roots (append_node d p c) = roots d"
  by (simp add: append_node_def)
lemma roots_prepend_node [simp]: "roots (prepend_node d p c) = roots d"
  by (simp add: prepend_node_def)
lemma roots_insertBefore [simp]: "roots (insertBefore d p c r) = roots d"
  by (simp add: insertBefore_def split: option.split)
lemma roots_fold_upd [simp]: "roots (fold (\<lambda>x d'. upd d' x f) xs d) = roots d"
  by (induction xs arbitrary: d) auto
lemma roots_replaceChildren [simp]: "roots (replaceChildren d p c) = roots d"
  by (simp add: replaceChildren_def)
lemma roots_addMargin [simp]: "roots (addMargin d c) = roots d"
  by (simp add: addMargin_def Let_def)
lemma roots_add_option [simp]: "roots (add_option oc od d) = roots d"
  by (simp add: add_option_def Let_def split_def)
lemma roots_fold_add_option [simp]: "roots (fold (add_option oc) ods d) = roots d"
  by (induction ods arbitrary: d) auto
lemma roots_createDropdown [simp]: "roots (fst (createDropdown d lb)) = roots d"
  by (simp add: createDropdown_def Let_def split_def split: option.split)
lemma roots_findBookmarkButton [simp]: "roots (fst (findBookmarkButton d el)) = roots d"
  by (simp add: findBookmarkButton_def split: option.split)
lemma roots_bookmark_step [simp]: "roots (bookmark_step d el) = roots d"
proof -
  have "roots (bookmark_step d el) = roots (fst (findBookmarkButton d el))"
    by (simp add: bookmark_step_def Let_def split_def split: prod.split option.split)
  then show ?thesis by simp
qed
lemma roots_getContainerForLink_twitter [simp]:
  "roots (fst (getContainerForLink_twitter d t)) = roots d"
  by (simp add: getContainerForLink_twitter_def Let_def split_def split: option.split)
lemma roots_getContainerForLink_farcaster [simp]:
  "roots (fst (getContainerForLink_farcaster d t)) = roots d"
  by (simp add: getContainerForLink_farcaster_def Let_def split_def split: option.split)

subsection \<open>How a dispatch ends\<close>

text \<open>
  A dispatch that ends in \<open>Mounted c\<close> leaves the tree of the extraction with one mount
  into \<open>c\<close>; a dispatch that ends in any other way leaves the tree of the extraction.
\<close>

lemma fetch_stage_not_mounted: "fetch_stage e options u tr a = (tr', Inl out) \<Longrightarrow> out \<noteq> Mounted c"
  by (auto simp add: fetch_stage_def Let_def split: option.splits if_splits)

lemma resolve_not_mounted: "resolve e options u tr = (tr', Inl out) \<Longrightarrow> out \<noteq> Mounted c"
  by (auto simp add: resolve_def Let_def split: option.splits if_splits
        dest: fetch_stage_not_mounted)

lemma extract_twitter_not_mounted: "extract_twitter d el = (d1, Inl out) \<Longrightarrow> out \<noteq> Mounted c"
  by (auto simp add: extract_twitter_def Let_def split: option.splits if_splits prod.splits)

lemma extract_farcaster_not_mounted: "extract_farcaster d el = (d1, Inl out) \<Longrightarrow> out \<noteq> Mounted c"
  by (auto simp add: extract_farcaster_def Let_def split: option.splits if_splits prod.splits)

lemma twitter_mounted:
  "handleNewNode_twitter e options d el = (d', tr, Mounted c)
   \<Longrightarrow> \<exists>r. d' = mount (fst (extract_twitter d el)) c r"
  by (auto simp add: handleNewNode_twitter_def Let_def
        split: option.splits prod.splits sum.splits
        dest: resolve_not_mounted extract_twitter_not_mounted)

lemma farcaster_mounted:
  "handleNewNode_farcaster e options d el = (d', tr, Mounted c)
   \<Longrightarrow> \<exists>r. d' = mount (fst (extract_farcaster d el)) c r"
  by (auto simp add: handleNewNode_farcaster_def Let_def
        split: option.splits prod.splits sum.splits
        dest: resolve_not_mounted extract_farcaster_not_mounted)



subsection \<open>The mount\<close>

lemma fold_detach_node_at:
  "node_at (fold (\<lambda>x d'. upd d' x (\<lambda>y. y\<lparr>parentNode := None\<rparr>)) xs d) m
     = (if m \<in> set xs \<and> m < next_id d then (node_at d m)\<lparr>parentNode := None\<rparr> else node_at d m)"
  by (induction xs arbitrary: d) (auto simp add: node_at_upd)

lemma node_at_createAction:
  "node_at (fst (createAction d r)) m
     = (if m = next_id d
        then (blank ''div'')\<lparr>attrs := [(''class'', ''dialect-action-root-container'')]\<rparr>
        else node_at d m)"
  by (auto simp add: createAction_def setClassName_def setAttribute_def node_at_upd
        node_at_createElement Let_def split_def blank_def)

lemma roots_createAction: "roots (fst (createAction d r)) = AList.update (next_id d) r (roots d)"
  by (simp add: createAction_def Let_def split_def)

lemma node_at_addMargin_struct:
  "childNodes (node_at (addMargin d c) m) = childNodes (node_at d m)"
  "parentNode (node_at (addMargin d c) m) = parentNode (node_at d m)"
  "attrs (node_at (addMargin d c) m) = attrs (node_at d m)"
  by (auto simp add: addMargin_def setStyle_def node_at_upd Let_def)

lemma replaceChildren_childNodes:
  assumes "p < next_id d" "c < next_id d" "c \<noteq> p" "parentNode (node_at d c) = None"
  shows "childNodes (node_at (replaceChildren d p c) p) = [c]"
    and "parentNode (node_at (replaceChildren d p c) c) = Some p"
  using assms
  by (auto simp add: replaceChildren_def append_node_def remove_node_def node_at_upd
        fold_detach_node_at split: option.splits)

lemma replaceChildren_detaches:
  assumes "p < next_id d" "c < next_id d" "c \<noteq> p" "parentNode (node_at d c) = None"
    and "x \<in> set (childNodes (node_at d p))" "x \<noteq> c" "x < next_id d"
  shows "parentNode (node_at (replaceChildren d p c) x) = None"
  using assms
  by (auto simp add: replaceChildren_def append_node_def remove_node_def node_at_upd
        fold_detach_node_at split: option.splits)

lemma mount_childNodes:
  assumes "c < next_id d"
  shows "childNodes (node_at (mount d c r) c) = [next_id d]"
    and "parentNode (node_at (mount d c r) (next_id d)) = Some c"
    and "map_of (roots (mount d c r)) (next_id d) = Some r"
  using assms
  by (simp_all add: mount_def Let_def split_def replaceChildren_childNodes
        node_at_createAction blank_def roots_createAction update_conv')

lemma mount_detaches:
  assumes "c < next_id d" "x \<in> set (childNodes (node_at d c))" "x < next_id d"
  shows "parentNode (node_at (mount d c r) x) = None"
  using assms
  by (simp add: mount_def Let_def split_def replaceChildren_detaches
        node_at_createAction blank_def node_at_addMargin_struct)

lemma mount_twice:
  assumes "c < next_id d"
  shows "childNodes (node_at (mount (mount d c r1) c r2) c) = [Suc (next_id d)]"
    and "map_of (roots (mount (mount d c r1) c r2)) (Suc (next_id d)) = Some r2"
    and "parentNode (node_at (mount (mount d c r1) c r2) (next_id d)) = None"
proof -
  have c': "c < next_id (mount d c r1)" using assms by simp
  from mount_childNodes(1)[OF c', of r2]
  show "childNodes (node_at (mount (mount d c r1) c r2) c) = [Suc (next_id d)]" by simp
  from mount_childNodes(3)[OF c', of r2]
  show "map_of (roots (mount (mount d c r1) c r2)) (Suc (next_id d)) = Some r2" by simp
  have "next_id d \<in> set (childNodes (node_at (mount d c r1) c))"
    using mount_childNodes(1)[OF assms, of r1] by simp
  moreover have "next_id d < next_id (mount d c r1)" by simp
  ultimately show "parentNode (node_at (mount (mount d c r1) c r2) (next_id d)) = None"
    using c' by (rule mount_detaches[rotated])
qed

lemma twitter_skip:
  "localName (node_at d el) = ''div'' \<Longrightarrow> findLinkPreview_twitter d el = None
   \<Longrightarrow> findContainerInTweet (bookmark_step d el) el False = Some w
   \<Longrightarrow> handleNewNode_twitter e options d el = (bookmark_step d el, [], Skipped)"
  by (simp add: handleNewNode_twitter_def extract_twitter_def Let_def)

subsection \<open>Margins\<close>

lemma structural_same_style: "structural same_style"
  by (simp add: structural_def preorder_def same_style_def)

lemma style_mount:
  assumes "c < next_id d"
  shows "style (node_at (mount d c r) c) = style (node_at (addMargin d c) c)"
proof -
  let ?d0 = "addMargin d c"
  let ?d1 = "fst (createElement ?d0 ''div'')"
  let ?d2 = "setClassName ?d1 (next_id ?d0) ''dialect-action-root-container''"
  have p: "preorder same_style" using structural_same_style by (simp add: structural_def)
  have f1: "frame same_style ?d0 ?d1" by (rule frame_createElement[OF p])
  have f2: "frame same_style ?d1 ?d2"
    unfolding setClassName_def setAttribute_def
    by (rule frame_upd[OF p]) (simp add: same_style_def)
  have f3: "frame same_style ?d2 (fst (createAction ?d0 r))"
    by (simp add: createAction_def Let_def split_def frame_roots_update[OF p])
  have f4: "frame same_style (fst (createAction ?d0 r)) (mount d c r)"
    by (simp add: mount_def Let_def split_def frame_replaceChildren[OF structural_same_style])
  have "frame same_style ?d0 (mount d c r)"
    using frame_trans[OF p f1 frame_trans[OF p f2 frame_trans[OF p f3 f4]]] .
  with assms show ?thesis by (simp add: frame_def same_style_def)
qed

lemma classList_contains_setStyle [simp]:
  "classList_contains (setStyle d n k v) m tok = classList_contains d m tok"
  by (simp add: classList_contains_def classList_def className_def getAttribute_def
        setStyle_def node_at_upd)

lemma getStyle_setStyle:
  "getStyle (setStyle d n k v) m k'
     = (if m = n \<and> n < next_id d \<and> k' = k then Some v else getStyle d m k')"
  by (auto simp add: getStyle_def setStyle_def node_at_upd update_conv')

lemma style_setStyle_other: "m \<noteq> n \<or> \<not> n < next_id d \<Longrightarrow> style (node_at (setStyle d n k v) m) = style (node_at d m)"
  by (auto simp add: setStyle_def node_at_upd)

lemma addMargin_margins:
  assumes "c < next_id d"
  shows "classList_contains d c ''dialect-wrapper''
           \<Longrightarrow> getStyle (addMargin d c) c ''marginTop'' = Some ''12px''"
    and "classList_contains d c ''dialect-wrapper'' \<Longrightarrow> classList_contains d c ''dialect-dm''
           \<Longrightarrow> getStyle (addMargin d c) c ''marginBottom'' = Some ''8px''"
    and "classList_contains d c ''dialect-wrapper'' \<Longrightarrow> \<not> classList_contains d c ''dialect-dm''
           \<Longrightarrow> getStyle (addMargin d c) c ''marginBottom'' = getStyle d c ''marginBottom''"
    and "\<not> classList_contains d c ''dialect-wrapper''
           \<Longrightarrow> style (node_at (addMargin d c) c) = style (node_at d c)"
  using assms
  by (simp_all add: addMargin_def Let_def getStyle_setStyle)

lemma mount_margins:
  assumes "c < next_id d"
  shows "classList_contains d c ''dialect-wrapper''
           \<Longrightarrow> getStyle (mount d c r) c ''marginTop'' = Some ''12px''"
    and "classList_contains d c ''dialect-wrapper'' \<Longrightarrow> classList_contains d c ''dialect-dm''
           \<Longrightarrow> getStyle (mount d c r) c ''marginBottom'' = Some ''8px''"
    and "classList_contains d c ''dialect-wrapper'' \<Longrightarrow> \<not> classList_contains d c ''dialect-dm''
           \<Longrightarrow> getStyle (mount d c r) c ''marginBottom'' = getStyle d c ''marginBottom''"
    and "\<not> classList_contains d c ''dialect-wrapper''
           \<Longrightarrow> style (node_at (mount d c r) c) = style (node_at d c)"
  using addMargin_margins[OF assms] style_mount[OF assms, of r]
  by (simp_all add: getStyle_def)

subsection \<open>The bookmark step\<close>


lemma findBookmarkButton_None:
  "snd (findBookmarkButton d el) = None \<Longrightarrow> fst (findBookmarkButton d el) = d"
  by (auto simp add: findBookmarkButton_def split: option.splits if_splits)




lemma next_id_add_option [simp]: "next_id (add_option oc od d) = Suc (next_id d)"
  by (simp add: add_option_def Let_def split_def)

lemma next_id_fold_add_option [simp]:
  "next_id (fold (add_option oc) ods d) = next_id d + length ods"
  by (induction ods arbitrary: d) auto




text \<open>When findBookmarkButton returns nothing, the bookmark step leaves the tree alone.\<close>

lemma bookmark_step_unchanged:
  assumes "snd (findBookmarkButton d el) = None"
  shows "bookmark_step d el = d"
proof -
  from assms findBookmarkButton_None[OF assms]
  have "findBookmarkButton d el = (d, None)" by (simp add: prod_eq_iff)
  then show ?thesis by (simp add: bookmark_step_def)
qed










section \<open>Results\<close>

text \<open>
  C1 (the code at the input the claim names): the claim says that
  \<^verbatim>\<open>checkSecurity('unknown', 'only-trusted')\<close> and
  \<^verbatim>\<open>checkSecurity('malicious', 'non-malicious')\<close> are false. The function returns
  true at both, and at every other input, while the switch it never reaches gives false.
\<close>

theorem C1_checkSecurity_always_true:
  "checkSecurity Unknown OnlyTrusted = True
   \<and> checkSecurity Malicious NonMalicious = True
   \<and> checkSecurity_switch Unknown OnlyTrusted = False
   \<and> checkSecurity_switch Malicious NonMalicious = False"
  by (simp add: checkSecurity_def)

text \<open>
  C9: normalizeOptions broadcasts a scalar security level to the three categories, uses a
  per-category record as it is, and gives only-trusted to all three when the level is absent.
\<close>

theorem C9_normalizeOptions:
  "normalizeOptions \<lparr> securityLevel = Some (Scalar l) \<rparr>
     = \<lparr> websites = l, interstitials = l, actions = l \<rparr>
   \<and> normalizeOptions \<lparr> securityLevel = Some (PerCategory r) \<rparr> = r
   \<and> normalizeOptions \<lparr> securityLevel = None \<rparr>
     = \<lparr> websites = OnlyTrusted, interstitials = OnlyTrusted, actions = OnlyTrusted \<rparr>"
  by (simp add: normalizeOptions_def DEFAULT_OPTIONS_securityLevel_def)

text \<open>
  C2 (the code at a failing input): with websites at only-trusted, interstitials and
  actions at all, a URL that is no interstitial and a website classified unknown, the
  claim says the dispatch stops before the manifest is fetched. On the cast of
  \<open>cast_page\<close> the dispatch fetches the manifest through the proxy, then fetches the
  action and mounts it, since checkSecurity answers true.
\<close>

theorem C2_unknown_website_manifest_fetched:
  "fst (isInterstitial (example_env Unknown True) example_url) = False
   \<and> getExtendedWebsiteState (example_env Unknown True) (url_href example_url) = Unknown
   \<and> snd (handleNewNode_farcaster (example_env Unknown True) websites_only_trusted cast_page 1)
       = ([Fetch ''https://proxy.dial.to/?url=https://example.com/actions.json'',
           ActionFetch ''https://example.com/api/action'',
           IsSupportedCall ''https://example.com/x''], Mounted 0)"
proof -
  have a: "fst (isInterstitial (example_env Unknown True) example_url) = False"
    and b: "getExtendedWebsiteState (example_env Unknown True) (url_href example_url) = Unknown"
    by (simp_all add: example_env_def)
  have c: "snd (handleNewNode_farcaster (example_env Unknown True) websites_only_trusted
                  cast_page 1)
       = ([Fetch ''https://proxy.dial.to/?url=https://example.com/actions.json'',
           ActionFetch ''https://example.com/api/action'',
           IsSupportedCall ''https://example.com/x''], Mounted 0)"
    by (simp only: cast_dispatch example_trace_def snd_conv)
  from a b c show ?thesis by blast
qed

text \<open>
  C6 (the code at a failing input): the claim says a text node earlier in a batch does not
  keep the elements after it from being dispatched. For the batch that adds the text node 0
  and then the div 1 the callback dispatches nothing, while the div alone is dispatched.
\<close>

theorem C6_text_node_ends_the_batch:
  "nodeType (node_at mixed_batch_page 0) = TEXT_NODE
   \<and> nodeType (node_at mixed_batch_page 1) = ELEMENT_NODE
   \<and> observer_callback mixed_batch_page [[0, 1]] = []
   \<and> observer_callback mixed_batch_page [[0], [1]] = []
   \<and> observer_callback mixed_batch_page [[1]] = [1]"
  by (simp add: mixed_batch_page_def page_def elem_def text_node_def node_at_def)


section \<open>The watcher waits for the registry\<close>

lemma watcher_idle:
  "\<not> observing w \<Longrightarrow> dispatched w = [] \<Longrightarrow> InitSettled True \<notin> set evs
   \<Longrightarrow> \<not> observing (foldl (watcher_step d) w evs)
       \<and> dispatched (foldl (watcher_step d) w evs) = []"
proof (induction evs arbitrary: w)
  case Nil
  then show ?case by simp
next
  case (Cons ev evs)
  have rest: "InitSettled True \<notin> set evs" using Cons.prems(3) by simp
  have step: "\<not> observing (watcher_step d w ev) \<and> dispatched (watcher_step d w ev) = []"
  proof (cases ev)
    case (InitSettled ok)
    with Cons.prems have "\<not> ok" by auto
    with InitSettled Cons.prems(1,2) show ?thesis by simp
  next
    case (MutationBatch ms)
    with Cons.prems(1,2) show ?thesis by simp
  qed
  from Cons.IH[of "watcher_step d w ev"] step rest show ?case by simp
qed

text \<open>Once the registry is ready the same batch is dispatched, on both platforms.\<close>

lemma watcher_dispatches_after_init:
  "dispatched (watcher_run mixed_batch_page (setupTwitterObserver (Some 2))
     [MutationBatch [[1]], InitSettled True, MutationBatch [[1]]]) = [1]
   \<and> dispatched (watcher_run mixed_batch_page (setupFarcasterObserver (Some 2))
     [MutationBatch [[1]], InitSettled True, MutationBatch [[1]]]) = [1]"
  by (simp add: watcher_run_def setupTwitterObserver_def setupFarcasterObserver_def
        mixed_batch_page_def page_def elem_def text_node_def node_at_def)

text \<open>
  C7: as long as the registry's init() promise has not been fulfilled, the observer is not
  attached and handleNewNode is called on no node, whatever mutations the page delivers;
  if the promise never settles, or is rejected, that holds forever. On both platforms.
\<close>

theorem C7_no_dispatch_before_init:
  "InitSettled True \<notin> set evs \<Longrightarrow>
     \<not> observing (watcher_run d (setupTwitterObserver r) evs)
     \<and> dispatched (watcher_run d (setupTwitterObserver r) evs) = []
     \<and> \<not> observing (watcher_run d (setupFarcasterObserver r) evs)
     \<and> dispatched (watcher_run d (setupFarcasterObserver r) evs) = []"
  unfolding watcher_run_def
  using watcher_idle[of "setupTwitterObserver r" evs d]
    watcher_idle[of "setupFarcasterObserver r" evs d]
  by (simp add: setupTwitterObserver_def setupFarcasterObserver_def)

theorem C7_no_dispatch_before_init_witness:
  "InitSettled True \<notin> set [MutationBatch [[1]], InitSettled False, MutationBatch [[1]]]
   \<and> \<not> observing (watcher_run mixed_batch_page (setupTwitterObserver (Some 2))
          [MutationBatch [[1]], InitSettled False, MutationBatch [[1]]])
   \<and> dispatched (watcher_run mixed_batch_page (setupTwitterObserver (Some 2))
          [MutationBatch [[1]], InitSettled False, MutationBatch [[1]]]) = []
   \<and> \<not> observing (watcher_run mixed_batch_page (setupFarcasterObserver (Some 2))
          [MutationBatch [[1]], InitSettled False, MutationBatch [[1]]])
   \<and> dispatched (watcher_run mixed_batch_page (setupFarcasterObserver (Some 2))
          [MutationBatch [[1]], InitSettled False, MutationBatch [[1]]]) = []"
  using C7_no_dispatch_before_init
          [of "[MutationBatch [[1]], InitSettled False, MutationBatch [[1]]]"
              mixed_batch_page "Some 2"]
  by simp

section \<open>The quick reject\<close>

text \<open>
  C3 as stated fails on Twitter, whose handleNewNode has no test on class names: the div 2
  of \<open>tweet_page\<close> carries neither marker class, and its dispatch adds a wrapper to the
  tree, fetches the shortened URL, the manifest and the action, and mounts.
\<close>

theorem C3_twitter_plain_div_counterexample:
  "localName (node_at tweet_page 2) = ''div''
   \<and> \<not> str_includes (className tweet_page 2) '' fade-in''
   \<and> \<not> str_includes (className tweet_page 2) ''relative''
   \<and> fst (handleNewNode_twitter (example_env Trusted True) websites_only_trusted tweet_page 2)
       \<noteq> tweet_page
   \<and> fst (snd (handleNewNode_twitter (example_env Trusted True) websites_only_trusted
                 tweet_page 2))
       = [Fetch ''https://t.co/abc'',
          Fetch ''https://proxy.dial.to/?url=https://example.com/actions.json'',
          ActionFetch ''https://example.com/api/action'',
          IsSupportedCall ''https://example.com/x'']"
proof -
  have a: "localName (node_at tweet_page 2) = ''div''"
    and b: "\<not> str_includes (className tweet_page 2) '' fade-in''"
    and c: "\<not> str_includes (className tweet_page 2) ''relative''"
    by (simp_all add: tweet_page_def page_def elem_def node_at_def className_def
          getAttribute_def)
  have "length (nodes tweet_page_1) \<noteq> length (nodes tweet_page)"
    by (simp add: tweet_page_def tweet_page_1_def page_def)
  then have d: "tweet_page_1 \<noteq> tweet_page" by auto
  have e: "fst (handleNewNode_twitter (example_env Trusted True) websites_only_trusted
                  tweet_page 2) = tweet_page_1"
    by (simp only: tweet_dispatch_1 fst_conv)
  have f: "fst (snd (handleNewNode_twitter (example_env Trusted True) websites_only_trusted
                 tweet_page 2))
       = [Fetch ''https://t.co/abc'',
          Fetch ''https://proxy.dial.to/?url=https://example.com/actions.json'',
          ActionFetch ''https://example.com/api/action'',
          IsSupportedCall ''https://example.com/x'']"
    by (simp only: tweet_dispatch_1 example_trace_def fst_conv snd_conv)
  from a b c d e f show ?thesis by simp
qed

text \<open>
  C3, amended: on Farcaster, an inserted element that is not a div whose className contains
  " fade-in" or "relative" leaves the tree as it was and causes no outside call; on Twitter,
  where there is no marker class, the same holds for every inserted element that is not
  a div.
\<close>

theorem C3_quick_reject:
  "(\<not> (localName (node_at d element) = ''div''
        \<and> (str_includes (className d element) '' fade-in''
           \<or> str_includes (className d element) ''relative''))
      \<longrightarrow> handleNewNode_farcaster e options d element = (d, [], NotApplicable))
   \<and> (localName (node_at d' element') \<noteq> ''div''
      \<longrightarrow> handleNewNode_twitter e options d' element' = (d', [], NotApplicable))"
  by (auto simp add: handleNewNode_farcaster_def extract_farcaster_def
        handleNewNode_twitter_def extract_twitter_def)

theorem C3_quick_reject_witness:
  "\<not> (localName (node_at cast_page 0) = ''div''
        \<and> (str_includes (className cast_page 0) '' fade-in''
           \<or> str_includes (className cast_page 0) ''relative''))
   \<and> handleNewNode_farcaster (example_env Trusted True) websites_only_trusted cast_page 0
       = (cast_page, [], NotApplicable)
   \<and> localName (node_at tweet_page 4) \<noteq> ''div''
   \<and> handleNewNode_twitter (example_env Trusted True) websites_only_trusted tweet_page 4
       = (tweet_page, [], NotApplicable)"
proof -
  have a: "\<not> (localName (node_at cast_page 0) = ''div''
        \<and> (str_includes (className cast_page 0) '' fade-in''
           \<or> str_includes (className cast_page 0) ''relative''))"
    by (simp add: cast_page_def page_def elem_def node_at_def className_def getAttribute_def)
  have b: "localName (node_at tweet_page 4) \<noteq> ''div''"
    by (simp add: tweet_page_def page_def elem_def node_at_def)
  from a b C3_quick_reject
         [of cast_page 0 "example_env Trusted True" websites_only_trusted tweet_page 4]
  show ?thesis by blast
qed


section \<open>Repeated dispatches\<close>

text \<open>
  C4 as stated fails: two dispatches on the div around the tweet text of \<open>tweet_page\<close>
  each create a wrapper beside the text and mount into it, so the div ends with two sibling
  wrappers, 5 and 7. The second dispatch does not see the first wrapper, because
  findContainerInTweet looks for the tweet element at or below the inserted element and
  this one lies inside the tweet.
\<close>

theorem C4_two_sibling_wrappers_counterexample:
  "handleNewNode_twitter (example_env Trusted True) websites_only_trusted tweet_page 2
     = (tweet_page_1, Fetch ''https://t.co/abc'' # example_trace, Mounted 5)
   \<and> handleNewNode_twitter (example_env Trusted True) websites_only_trusted tweet_page_1 2
     = (tweet_page_2, Fetch ''https://t.co/abc'' # example_trace, Mounted 7)
   \<and> filter (\<lambda>n. classList_contains tweet_page_2 n ''dialect-wrapper'')
         (childNodes (node_at tweet_page_2 2)) = [5, 7]"
  using tweet_dispatch_1[of Trusted] tweet_dispatch_2[of Trusted] two_wrappers by blast

text \<open>
  C4, amended. A mount replaces the children of its mount point: after a second mount into
  the same mount point that node has exactly one child, the render root of the second mount
  with the second mount's content, and the first render root is detached. On Twitter, when
  the inserted div has no link-preview card and findContainerInTweet finds a wrapper (the
  div is or contains the tweet or message entry, which holds a .dialect-wrapper), the
  dispatch ends there: the tree is the one the bookmark step left, and nothing is fetched.
\<close>

theorem C4_supersede_and_skip:
  "(c < next_id d \<longrightarrow>
      childNodes (node_at (mount (mount d c r1) c r2) c) = [Suc (next_id d)]
      \<and> map_of (roots (mount (mount d c r1) c r2)) (Suc (next_id d)) = Some r2
      \<and> parentNode (node_at (mount (mount d c r1) c r2) (next_id d)) = None)
   \<and> (localName (node_at d' element) = ''div''
        \<and> findLinkPreview_twitter d' element = None
        \<and> findContainerInTweet (bookmark_step d' element) element False = Some w
      \<longrightarrow> handleNewNode_twitter e options d' element
            = (bookmark_step d' element, [], Skipped))"
  using mount_twice[of c d r1 r2] twitter_skip[of d' element w e options] by blast

theorem C4_supersede_and_skip_witness:
  "5 < next_id tweet_page_1
   \<and> childNodes (node_at (mount (mount tweet_page_1 5 example_render) 5 example_render) 5)
       = [Suc (next_id tweet_page_1)]
   \<and> map_of (roots (mount (mount tweet_page_1 5 example_render) 5 example_render))
         (Suc (next_id tweet_page_1)) = Some example_render
   \<and> parentNode (node_at (mount (mount tweet_page_1 5 example_render) 5 example_render)
         (next_id tweet_page_1)) = None
   \<and> localName (node_at tweet_page_1 0) = ''div''
   \<and> findLinkPreview_twitter tweet_page_1 0 = None
   \<and> findContainerInTweet (bookmark_step tweet_page_1 0) 0 False = Some 5
   \<and> handleNewNode_twitter (example_env Trusted True) websites_only_trusted tweet_page_1 0
       = (bookmark_step tweet_page_1 0, [], Skipped)"
proof -
  have a: "5 < next_id tweet_page_1" by (simp add: next_id_def tweet_page_1_def)
  have b: "findContainerInTweet (bookmark_step tweet_page_1 0) 0 False = Some 5"
    by (simp only: skip_facts)
  from a b skip_facts(1,2)
    C4_supersede_and_skip[of 5 tweet_page_1 example_render example_render tweet_page_1 0 5
      "example_env Trusted True" websites_only_trusted]
  show ?thesis by blast
qed

section \<open>Rejection by the adapter\<close>




section \<open>Margins of the mount point\<close>

text \<open>
  C8 as stated fails for the link-preview branch: the mount point there is the parent of
  the card, which is no .dialect-wrapper, and addMargin sets margins only on an element of
  that class. After the mount of \<open>cast_page\<close> into the card's parent 0 that node has no
  top margin.
\<close>

theorem C8_card_parent_no_margin_counterexample:
  "handleNewNode_farcaster (example_env Trusted True) websites_only_trusted cast_page 1
     = (cast_page_mounted, example_trace, Mounted 0)
   \<and> parentElement cast_page 1 = Some 0
   \<and> getStyle cast_page_mounted 0 ''marginTop'' = None"
  using cast_dispatch[of Trusted] cast_mounted_facts by blast

text \<open>
  C8, amended: a mount into a mount point of class dialect-wrapper gives it the top margin
  12px, and also the bottom margin 8px when it has the class dialect-dm (otherwise its
  bottom margin stays as it was); a mount into any other mount point, such as the parent of
  a link-preview card, leaves that node's style as it was. Every dispatch that mounts does
  it through \<open>mount\<close> (lemmas \<open>twitter_mounted\<close> and \<open>farcaster_mounted\<close>).
\<close>

theorem C8_margins:
  "c < next_id d \<Longrightarrow>
     (classList_contains d c ''dialect-wrapper''
        \<longrightarrow> getStyle (mount d c r) c ''marginTop'' = Some ''12px'')
     \<and> (classList_contains d c ''dialect-wrapper'' \<and> classList_contains d c ''dialect-dm''
        \<longrightarrow> getStyle (mount d c r) c ''marginBottom'' = Some ''8px'')
     \<and> (classList_contains d c ''dialect-wrapper'' \<and> \<not> classList_contains d c ''dialect-dm''
        \<longrightarrow> getStyle (mount d c r) c ''marginBottom'' = getStyle d c ''marginBottom'')
     \<and> (\<not> classList_contains d c ''dialect-wrapper''
        \<longrightarrow> style (node_at (mount d c r) c) = style (node_at d c))"
  using mount_margins[of c d r] by blast

theorem C8_margins_witness:
  "1 < next_id wrappers_page
   \<and> classList_contains wrappers_page 1 ''dialect-wrapper''
   \<and> \<not> classList_contains wrappers_page 1 ''dialect-dm''
   \<and> getStyle (mount wrappers_page 1 example_render) 1 ''marginTop'' = Some ''12px''
   \<and> getStyle (mount wrappers_page 1 example_render) 1 ''marginBottom''
       = getStyle wrappers_page 1 ''marginBottom''
   \<and> classList_contains wrappers_page 2 ''dialect-wrapper''
   \<and> classList_contains wrappers_page 2 ''dialect-dm''
   \<and> getStyle (mount wrappers_page 2 example_render) 2 ''marginTop'' = Some ''12px''
   \<and> getStyle (mount wrappers_page 2 example_render) 2 ''marginBottom'' = Some ''8px''
   \<and> \<not> classList_contains wrappers_page 0 ''dialect-wrapper''
   \<and> style (node_at (mount wrappers_page 0 example_render) 0)
       = style (node_at wrappers_page 0)"
proof -
  have lt: "0 < next_id wrappers_page" "1 < next_id wrappers_page" "2 < next_id wrappers_page"
    by (simp_all add: wrappers_facts(6))
  from lt wrappers_facts(1-5)
    C8_margins[of 0 wrappers_page example_render]
    C8_margins[of 1 wrappers_page example_render]
    C8_margins[of 2 wrappers_page example_render]
  show ?thesis by blast
qed


section \<open>The dropdown beside the bookmark button\<close>





end
